theory Spec2Isabelle
  imports Complex_Main "HOL-Library.Sublist"
begin

section \<open>Python values\<close>

text \<open>
  A Python \<open>str\<close> is a sequence of Unicode code points; slicing, \<open>len\<close>, \<open>in\<close> and
  \<open>unicodedata.category\<close> all count code points, so a string is a list of code points.
  \<open>str\<close> turns an ASCII literal into such a string.
\<close>

type_synonym ustr = "nat list"

definition str :: "string \<Rightarrow> ustr" where
  "str s = map of_char s"

text \<open>
  The scripts call into the Python standard library (Unicode tables, \<open>float\<close>, \<open>int\<close>,
  \<open>strptime\<close>, \<open>strftime\<close>, \<open>re\<close>, \<open>json\<close>). That code is not part of the repository; it is
  a parameter of every definition that uses it, and every general theorem below holds for
  all values of the parameter. A \<open>float\<close> is modelled by the rational it denotes (finite
  floats only); a \<open>datetime.date\<close> by its proleptic Gregorian ordinal.
\<close>

type_synonym date = int

datatype json =
    JNull
  | JBool bool
  | JNumber rat
  | JString ustr
  | JArray "json list"
  | JObject "(ustr \<times> json) list"

record pylib =
  category_So :: "nat \<Rightarrow> bool"            \<comment> \<open>\<open>unicodedata.category(c) == "So"\<close>\<close>
  isspace :: "nat \<Rightarrow> bool"                \<comment> \<open>the characters \<open>str.strip()\<close> removes\<close>
  lower :: "ustr \<Rightarrow> ustr"                  \<comment> \<open>\<open>str.lower\<close>\<close>
  float_of :: "ustr \<Rightarrow> rat option"         \<comment> \<open>\<open>float(s)\<close>; \<open>None\<close> is \<open>ValueError\<close>\<close>
  str_of_float :: "rat \<Rightarrow> ustr"            \<comment> \<open>\<open>str(x)\<close> of a float\<close>
  int_of :: "ustr \<Rightarrow> int option"           \<comment> \<open>\<open>int(s)\<close>; \<open>None\<close> is \<open>ValueError\<close>\<close>
  strptime :: "ustr \<Rightarrow> ustr \<Rightarrow> date option" \<comment> \<open>\<open>datetime.strptime(s, fmt).date()\<close>, format first\<close>
  isoformat :: "date \<Rightarrow> ustr"              \<comment> \<open>\<open>d.isoformat()\<close>, \<open>str(d)\<close>, \<open>d.strftime("%Y-%m-%d")\<close>\<close>
  search_iso :: "ustr \<Rightarrow> (ustr \<times> ustr \<times> ustr) option"
    \<comment> \<open>the groups of \<open>re.search\<close> for four digits, dash, two digits, dash, two digits\<close>
  search_us :: "ustr \<Rightarrow> (ustr \<times> ustr \<times> ustr) option"
    \<comment> \<open>the groups of \<open>re.search\<close> for one or two digits, slash, one or two digits, slash, four digits\<close>
  sub_fence_open :: "ustr \<Rightarrow> ustr"
    \<comment> \<open>\<open>re.sub\<close> deleting every match of three backquotes, \<open>jso\<close>, an optional \<open>n\<close>, whitespace\<close>
  sub_fence_close :: "ustr \<Rightarrow> ustr"
    \<comment> \<open>\<open>re.sub\<close> deleting three backquotes and whitespace at the end of the text\<close>
  json_loads :: "ustr \<Rightarrow> json option"      \<comment> \<open>\<open>json.loads(s)\<close>; \<open>None\<close> is \<open>JSONDecodeError\<close>\<close>

definition strip :: "pylib \<Rightarrow> ustr \<Rightarrow> ustr" where
  "strip L s = rev (dropWhile (isspace L) (rev (dropWhile (isspace L) s)))"

text \<open>\<open>x or ""\<close> for a value that is a string or \<open>None\<close>.\<close>

definition or_empty :: "ustr option \<Rightarrow> ustr" where
  "or_empty x = (case x of None \<Rightarrow> [] | Some s \<Rightarrow> s)"

text \<open>
  \<open>date(y, m, d)\<close> as an ordinal, as \<open>datetime\<close> computes \<open>toordinal\<close> for a valid date.
\<close>

definition is_leap :: "int \<Rightarrow> bool" where
  "is_leap y = (y mod 4 = 0 \<and> (y mod 400 = 0 \<or> y mod 100 \<noteq> 0))"

definition days_before_year :: "int \<Rightarrow> int" where
  "days_before_year y = (y - 1) * 365 + (y - 1) div 4 - (y - 1) div 100 + (y - 1) div 400"

definition days_before_month :: "int \<Rightarrow> int \<Rightarrow> int" where
  "days_before_month y m =
     [0, 31, 59, 90, 120, 151, 181, 212, 243, 273, 304, 334] ! nat (m - 1)
     + (if m > 2 \<and> is_leap y then 1 else 0)"

definition ymd :: "int \<Rightarrow> int \<Rightarrow> int \<Rightarrow> date" where
  "ymd y m d = days_before_year y + days_before_month y m + d"

text \<open>\<open>str(n)\<close> of an integer, as the f-strings print it.\<close>

fun digits :: "nat \<Rightarrow> ustr" where
  "digits n = (if n < 10 then [48 + n] else digits (n div 10) @ [48 + n mod 10])"

declare digits.simps [simp del]

definition str_int :: "int \<Rightarrow> ustr" where
  "str_int i = (if i < 0 then 45 # digits (nat (- i)) else digits (nat i))"

section \<open>Fuzzy category resolution\<close>

definition DEFAULT_CATEGORY :: ustr where
  "DEFAULT_CATEGORY = str ''Uncategorized''"

text \<open>
  \<open>normalize\<close> of \<open>amazon_csv_to_ynab._resolve_category\<close> (\<open>norm\<close> in
  \<open>ynab_apply_csv_categories\<close>): drop the characters of category \<open>So\<close>, strip, lower-case.
\<close>

definition normalize_name :: "pylib \<Rightarrow> ustr \<Rightarrow> ustr" where
  "normalize_name L s = lower L (strip L (filter (\<lambda>c. \<not> category_So L c) s))"

text \<open>
  The loop of \<open>amazon_csv_to_ynab._resolve_category\<close>: for each category in vocabulary
  order, first the test for equal normal forms, then the substring test, each returning
  that category.
\<close>

fun resolve_loop :: "pylib \<Rightarrow> ustr \<Rightarrow> ustr list \<Rightarrow> ustr" where
  "resolve_loop L ai_norm [] = DEFAULT_CATEGORY"
| "resolve_loop L ai_norm (cat # cats) =
     (if normalize_name L cat = ai_norm then cat
      else if sublist ai_norm (normalize_name L cat) \<or> sublist (normalize_name L cat) ai_norm then cat
      else resolve_loop L ai_norm cats)"

definition resolve_category :: "pylib \<Rightarrow> ustr option \<Rightarrow> ustr list \<Rightarrow> ustr" where
  "resolve_category L ai_response valid_categories =
     (let ai_response = strip L (or_empty ai_response) in
      if ai_response \<in> set valid_categories then ai_response
      else resolve_loop L (normalize_name L ai_response) valid_categories)"

text \<open>
  The copy in \<open>ynab_apply_csv_categories\<close>: one condition per category, and the literal
  \<open>"Uncategorized"\<close> as the fallback.
\<close>

fun resolve_loop_apply :: "pylib \<Rightarrow> ustr \<Rightarrow> ustr list \<Rightarrow> ustr" where
  "resolve_loop_apply L ai_n [] = str ''Uncategorized''"
| "resolve_loop_apply L ai_n (c # cs) =
     (if normalize_name L c = ai_n \<or> sublist ai_n (normalize_name L c) \<or> sublist (normalize_name L c) ai_n
      then c else resolve_loop_apply L ai_n cs)"

definition resolve_category_apply :: "pylib \<Rightarrow> ustr option \<Rightarrow> ustr list \<Rightarrow> ustr" where
  "resolve_category_apply L ai_response valid =
     (let ai_response = strip L (or_empty ai_response) in
      if ai_response \<in> set valid then ai_response
      else resolve_loop_apply L (normalize_name L ai_response) valid)"

text \<open>Two normal forms are related when one is a substring of the other.\<close>

definition related :: "pylib \<Rightarrow> ustr \<Rightarrow> ustr \<Rightarrow> bool" where
  "related L n c = (sublist n (normalize_name L c) \<or> sublist (normalize_name L c) n)"

section \<open>The CSV normalizer (\<open>amazon_csv_to_ynab\<close>)\<close>

text \<open>
  A row of \<open>csv.DictReader\<close>: a dict from header to cell. A cell is a string, or \<open>None\<close>
  where the line is shorter than the header. (Lines longer than the header are left out.)
\<close>

type_synonym csv_row = "ustr \<rightharpoonup> ustr option"

datatype error = AttributeError | IndexError | ValueError | JSONDecodeError | ApiException

definition row_get :: "csv_row \<Rightarrow> ustr \<Rightarrow> ustr option \<Rightarrow> ustr option" where
  "row_get row k dflt = (case row k of None \<Rightarrow> dflt | Some cell \<Rightarrow> cell)"

text \<open>\<open>row.get(col, "")\<close> for a column variable that may be \<open>None\<close>.\<close>

definition col_get :: "csv_row \<Rightarrow> ustr option \<Rightarrow> ustr option" where
  "col_get row col = (case col of None \<Rightarrow> Some [] | Some k \<Rightarrow> row_get row k (Some []))"

definition DATE_FORMATS :: "ustr list" where
  "DATE_FORMATS = [str ''%Y-%m-%d'', str ''%m/%d/%Y'', str ''%d/%m/%Y'', str ''%b %d, %Y'',
     str ''%B %d, %Y'', str ''%d %b %Y'', str ''%d %B %Y'']"

fun try_formats :: "pylib \<Rightarrow> ustr \<Rightarrow> ustr list \<Rightarrow> ustr option" where
  "try_formats L s [] = None"
| "try_formats L s (fmt # fmts) =
     (case strptime L fmt s of
        Some d \<Rightarrow> Some (isoformat L d)
      | None \<Rightarrow> try_formats L s fmts)"

text \<open>\<open>g.zfill(2)\<close> for a group of one or two digits.\<close>

definition zfill2 :: "ustr \<Rightarrow> ustr" where
  "zfill2 g = replicate (2 - length g) 48 @ g"

definition parse_date :: "pylib \<Rightarrow> ustr option \<Rightarrow> ustr option" where
  "parse_date L cell =
     (if cell = None \<or> strip L (or_empty cell) = [] then None
      else let s = strip L (or_empty cell) in
        case try_formats L s DATE_FORMATS of
          Some d \<Rightarrow> Some d
        | None \<Rightarrow>
           (case search_iso L s of
              Some (g1, g2, g3) \<Rightarrow> Some (g1 @ str ''-'' @ g2 @ str ''-'' @ g3)
            | None \<Rightarrow>
               (case search_us L s of
                  Some (g1, g2, g3) \<Rightarrow> Some (g3 @ str ''-'' @ zfill2 g1 @ str ''-'' @ zfill2 g2)
                | None \<Rightarrow> None)))"

text \<open>\<open>s.replace(pat, "")\<close> for a pattern that is not empty.\<close>

function remove_all :: "ustr \<Rightarrow> ustr \<Rightarrow> ustr" where
  "remove_all pat [] = []"
| "remove_all pat (c # cs) =
     (if pat \<noteq> [] \<and> prefix pat (c # cs) then remove_all pat (drop (length pat - 1) cs)
      else c # remove_all pat cs)"
  by pat_completeness auto
termination
  by (relation "measure (\<lambda>(pat, s). length s)") auto

definition parse_amount :: "pylib \<Rightarrow> ustr option \<Rightarrow> rat option" where
  "parse_amount L cell =
     (case cell of
        None \<Rightarrow> None
      | Some s \<Rightarrow>
          if strip L s = [] then None
          else float_of L
                 (strip L (remove_all (str ''CAD'')
                    (remove_all (str ''$'') (remove_all (str '','') (strip L s))))))"

record columns =
  date_col :: ustr
  amount_col :: ustr
  memo_col :: "ustr option"
  order_id_col :: "ustr option"
  order_total_col :: "ustr option"

record row_out =
  Date :: ustr
  Payee :: ustr
  Memo :: ustr
  Amount :: rat
  Category :: ustr
  OrderId :: ustr

definition PAYEE :: ustr where
  "PAYEE = str ''Amazon.ca''"

definition REFUND_WORDS :: "ustr list" where
  "REFUND_WORDS = [str ''return'', str ''refund'', str ''reimbursement'']"

text \<open>The sign convention, lines 257 to 263 of \<open>main\<close>.\<close>

definition amount_ynab :: "pylib \<Rightarrow> rat \<Rightarrow> ustr \<Rightarrow> rat" where
  "amount_ynab L amount_val memo_str =
     (if amount_val > 0 \<and> list_ex (\<lambda>x. sublist x (lower L memo_str)) REFUND_WORDS
      then amount_val
      else if amount_val \<noteq> 0 then - \<bar>amount_val\<bar> else 0)"

definition truthy :: "ustr option \<Rightarrow> bool" where
  "truthy x = (x \<noteq> None \<and> x \<noteq> Some [])"

text \<open>The \<open>elif\<close> and \<open>else\<close> branches of the order id.\<close>

definition synth_order_id :: "pylib \<Rightarrow> columns \<Rightarrow> csv_row \<Rightarrow> ustr \<Rightarrow> ustr" where
  "synth_order_id L cols row date_str =
     (if truthy (order_total_col cols) then
        (case parse_amount L (col_get row (order_total_col cols)) of
           Some order_total_val \<Rightarrow> date_str @ str ''|'' @ str_of_float L order_total_val
         | None \<Rightarrow> [])
      else [])"

definition order_id_of :: "pylib \<Rightarrow> columns \<Rightarrow> csv_row \<Rightarrow> ustr \<Rightarrow> error + ustr" where
  "order_id_of L cols row date_str =
     (if truthy (order_id_col cols) then
        (case col_get row (order_id_col cols) of
           None \<Rightarrow> Inl AttributeError
         | Some cell \<Rightarrow>
             if strip L cell \<noteq> [] then Inr (strip L cell)
             else Inr (synth_order_id L cols row date_str))
      else Inr (synth_order_id L cols row date_str))"

text \<open>
  The body of the row loop of \<open>main\<close>, lines 249 to 280, for the columns found on the
  first row: \<open>Inr None\<close> is \<open>continue\<close>, \<open>Inl\<close> an exception that ends the run.
\<close>

definition process_row :: "pylib \<Rightarrow> columns \<Rightarrow> csv_row \<Rightarrow> error + row_out option" where
  "process_row L cols row =
     (let date_str = parse_date L (row_get row (date_col cols) (Some []));
          amount_val = parse_amount L (row_get row (amount_col cols) (Some []));
          memo_str = take 500 (strip L (or_empty (col_get row (memo_col cols))))
      in case (date_str, amount_val) of
           (Some d, Some a) \<Rightarrow>
             if d = [] then Inr None
             else (case order_id_of L cols row d of
                     Inl e \<Rightarrow> Inl e
                   | Inr order_id \<Rightarrow>
                       Inr (Some \<lparr> Date = d, Payee = PAYEE,
                                   Memo = (if memo_str \<noteq> [] then memo_str else str ''Order '' @ d),
                                   Amount = amount_ynab L a memo_str,
                                   Category = [], OrderId = order_id \<rparr>))
         | _ \<Rightarrow> Inr None)"

fun parse_rows :: "pylib \<Rightarrow> columns \<Rightarrow> csv_row list \<Rightarrow> error + row_out list" where
  "parse_rows L cols [] = Inr []"
| "parse_rows L cols (row # rows) =
     (case process_row L cols row of
        Inl e \<Rightarrow> Inl e
      | Inr None \<Rightarrow> parse_rows L cols rows
      | Inr (Some r) \<Rightarrow>
          (case parse_rows L cols rows of
             Inl e \<Rightarrow> Inl e
           | Inr rows_out \<Rightarrow> Inr (r # rows_out)))"

text \<open>Deduplication, lines 282 to 289: the key, the set \<open>seen\<close>, first occurrence kept.\<close>

definition dedup_key :: "row_out \<Rightarrow> ustr \<times> rat \<times> ustr" where
  "dedup_key r = (Date r, Amount r, take 100 (Memo r))"

fun dedup_loop :: "(ustr \<times> rat \<times> ustr) set \<Rightarrow> row_out list \<Rightarrow> row_out list" where
  "dedup_loop seen [] = []"
| "dedup_loop seen (r # rs) =
     (if dedup_key r \<notin> seen then r # dedup_loop (insert (dedup_key r) seen) rs
      else dedup_loop seen rs)"

definition dedupe :: "row_out list \<Rightarrow> row_out list" where
  "dedupe rows_out = dedup_loop {} rows_out"

section \<open>AI classification (\<open>amazon_csv_to_ynab.categorize_with_ai\<close>)\<close>

text \<open>
  The classification service is outside the repository. The prompt is a fixed text around
  the category list and the memos cut to 300 characters, so the outcome of
  \<open>client.messages.create\<close> is given as a function of the number of the request, the
  categories and the cut memos: an exception, or the content blocks of the response, each
  with its text (\<open>None\<close> for a block without one).
\<close>

datatype api_outcome = Raises | Content "ustr option list"

record ai_env =
  api_key :: "ustr option"      \<comment> \<open>\<open>os.environ.get("ANTHROPIC_API_KEY")\<close>\<close>
  messages_create :: "nat \<Rightarrow> ustr list \<Rightarrow> ustr list \<Rightarrow> api_outcome"

text \<open>\<open>{i: DEFAULT_CATEGORY for i in range(len(items))}\<close>\<close>

definition default_map :: "nat \<Rightarrow> (int \<rightharpoonup> json)" where
  "default_map n = (\<lambda>i. if 0 \<le> i \<and> i < int n then Some (JString DEFAULT_CATEGORY) else None)"

text \<open>
  \<open>{int(k): v for k, v in result.items()}\<close>: \<open>JObject\<close> holds the items of the dict that
  \<open>json.loads\<close> returns, in order; a later item overrides an earlier one with the same
  integer; the first key that is no integer raises \<open>ValueError\<close>.
\<close>

fun int_keys :: "pylib \<Rightarrow> (ustr \<times> json) list \<Rightarrow> (int \<rightharpoonup> json) \<Rightarrow> error + (int \<rightharpoonup> json)" where
  "int_keys L [] m = Inr m"
| "int_keys L ((k, v) # items) m =
     (case int_of L k of
        None \<Rightarrow> Inl ValueError
      | Some i \<Rightarrow> int_keys L items (m(i \<mapsto> v)))"

definition FENCE :: ustr where
  "FENCE = [96, 96, 96]"

text \<open>
  Lines 192 to 196: the text of the response, stripped, and without its code fence when
  it starts with one.
\<close>

definition response_body :: "pylib \<Rightarrow> ustr \<Rightarrow> ustr" where
  "response_body L text =
     (let response_text = strip L text
      in if prefix FENCE response_text
         then sub_fence_close L (sub_fence_open L response_text)
         else response_text)"

text \<open>The body of the \<open>try\<close>, lines 185 to 199, on the outcome of the request.\<close>

definition parse_response :: "pylib \<Rightarrow> api_outcome \<Rightarrow> error + (int \<rightharpoonup> json)" where
  "parse_response L outcome =
     (case outcome of
        Raises \<Rightarrow> Inl ApiException
      | Content [] \<Rightarrow> Inl IndexError
      | Content (None # _) \<Rightarrow> Inl AttributeError
      | Content (Some text # _) \<Rightarrow>
          (case json_loads L (response_body L text) of
             None \<Rightarrow> Inl JSONDecodeError
           | Some (JObject items) \<Rightarrow> int_keys L items Map.empty
           | Some _ \<Rightarrow> Inl AttributeError))"

definition categorize_with_ai ::
  "pylib \<Rightarrow> ai_env \<Rightarrow> nat \<Rightarrow> ustr list \<Rightarrow> ustr list \<Rightarrow> (int \<rightharpoonup> json)" where
  "categorize_with_ai L env n items categories =
     (if \<not> truthy (api_key env) then default_map (length items)
      else case parse_response L (messages_create env n categories (map (take 300) items)) of
             Inl e \<Rightarrow> default_map (length items)
           | Inr result \<Rightarrow> result)"

text \<open>
  \<open>(ai_cat or "").strip()\<close> at the head of \<open>_resolve_category\<close>, for a value of the
  mapping: a falsy value becomes the empty string, any other value that is no string has
  no \<open>strip\<close>.
\<close>

definition as_response :: "json \<Rightarrow> error + ustr option" where
  "as_response v =
     (case v of
        JString s \<Rightarrow> Inr (Some s)
      | JNull \<Rightarrow> Inr None
      | JBool b \<Rightarrow> if b then Inl AttributeError else Inr None
      | JNumber x \<Rightarrow> if x = 0 then Inr None else Inl AttributeError
      | JArray xs \<Rightarrow> if xs = [] then Inr None else Inl AttributeError
      | JObject xs \<Rightarrow> if xs = [] then Inr None else Inl AttributeError)"

text \<open>The inner loop of lines 311 to 313 over one batch, from index \<open>j\<close>.\<close>

fun assign_batch ::
  "pylib \<Rightarrow> ustr list \<Rightarrow> (int \<rightharpoonup> json) \<Rightarrow> nat \<Rightarrow> row_out list \<Rightarrow> error + row_out list" where
  "assign_batch L categories categorizations j [] = Inr []"
| "assign_batch L categories categorizations j (r # rs) =
     (case as_response (case categorizations (int j) of
                          None \<Rightarrow> JString DEFAULT_CATEGORY | Some v \<Rightarrow> v) of
        Inl e \<Rightarrow> Inl e
      | Inr ai_cat \<Rightarrow>
          (case assign_batch L categories categorizations (Suc j) rs of
             Inl e \<Rightarrow> Inl e
           | Inr rs' \<Rightarrow> Inr (r\<lparr>Category := resolve_category L ai_cat categories\<rparr> # rs')))"

definition BATCH_SIZE :: nat where
  "BATCH_SIZE = 30"

text \<open>The batch loop of lines 306 to 313; \<open>n\<close> counts the requests.\<close>

function categorize_all ::
  "pylib \<Rightarrow> ai_env \<Rightarrow> ustr list \<Rightarrow> nat \<Rightarrow> row_out list \<Rightarrow> error + row_out list" where
  "categorize_all L env categories n deduped =
     (if deduped = [] then Inr []
      else let batch = take BATCH_SIZE deduped;
               categorizations = categorize_with_ai L env n (map Memo batch) categories
           in case assign_batch L categories categorizations 0 batch of
                Inl e \<Rightarrow> Inl e
              | Inr batch' \<Rightarrow>
                  (case categorize_all L env categories (Suc n) (drop BATCH_SIZE deduped) of
                     Inl e \<Rightarrow> Inl e
                   | Inr rest \<Rightarrow> Inr (batch' @ rest)))"
  by pat_completeness auto
termination
  by (relation "measure (\<lambda>(L, env, categories, n, deduped). length deduped)")
     (auto simp: BATCH_SIZE_def)

declare categorize_all.simps [simp del]

text \<open>
  The rows that \<open>main\<close> writes to the output CSV: parsed, deduplicated, and categorized
  (all \<open>Uncategorized\<close> under \<open>--no-ai\<close>). \<open>categories\<close> is what
  \<open>fetch_ynab_categories\<close> returned.
\<close>

definition normalizer_output ::
  "pylib \<Rightarrow> ai_env \<Rightarrow> bool \<Rightarrow> ustr list \<Rightarrow> columns \<Rightarrow> csv_row list \<Rightarrow> error + row_out list" where
  "normalizer_output L env no_ai categories cols rows =
     (case parse_rows L cols rows of
        Inl e \<Rightarrow> Inl e
      | Inr rows_out \<Rightarrow>
          if no_ai then Inr (map (\<lambda>r. r\<lparr>Category := DEFAULT_CATEGORY\<rparr>) (dedupe rows_out))
          else categorize_all L env categories 0 (dedupe rows_out))"

section \<open>Matching ledger transactions to the CSV (\<open>ynab_apply_csv_categories\<close>)\<close>

text \<open>\<open>int(round(x))\<close>: Python rounds a tie to the even integer.\<close>

definition py_round :: "rat \<Rightarrow> int" where
  "py_round x =
     (let f = \<lfloor>x\<rfloor>; r = x - of_int f
      in if r < 1 / 2 then f else if 1 / 2 < r then f + 1 else if even f then f else f + 1)"

text \<open>
  \<open>int(round(amt * 1000))\<close> followed by the sign flip of a positive value. The product of
  floats is taken as exact.
\<close>

definition outflow_milliunits :: "rat \<Rightarrow> int" where
  "outflow_milliunits amt =
     (let milliunits = py_round (amt * 1000)
      in if milliunits > 0 then - milliunits else milliunits)"

definition YMD :: ustr where
  "YMD = str ''%Y-%m-%d''"

text \<open>
  What one CSV row adds to the two indexes of \<open>load_csv_lookup\<close>, \<open>None\<close> where the loop
  says \<open>continue\<close>. The key strings \<open>dt.strftime("%Y-%m-%d")\<close> are canonical texts of
  dates, one text per date; an index key holds the date in place of its text.
\<close>

definition csv_entry :: "pylib \<Rightarrow> csv_row \<Rightarrow> (date \<times> int \<times> ustr) option" where
  "csv_entry L row =
     (let date_str = strip L (or_empty (row_get row (str ''Date'') None))
      in if date_str = [] then None
         else case strptime L YMD date_str of
           None \<Rightarrow> None
         | Some dt \<Rightarrow>
            (let a = row_get row (str ''Amount'') None;
                 amt_str = remove_all (str '','') (strip L (if truthy a then or_empty a else str ''0''))
             in case float_of L amt_str of
                  None \<Rightarrow> None
                | Some amt \<Rightarrow>
                   (let milliunits = outflow_milliunits amt;
                        cat = strip L (or_empty (row_get row (str ''Category'') None))
                    in if cat = [] \<or> lower L cat = str ''uncategorized'' then None
                       else Some (dt, milliunits, cat))))"

type_synonym lookup = "date \<times> int \<rightharpoonup> ustr"
type_synonym by_amount = "int \<rightharpoonup> (date \<times> ustr) list"

fun add_entry :: "date \<times> int \<times> ustr \<Rightarrow> lookup \<times> by_amount \<Rightarrow> lookup \<times> by_amount" where
  "add_entry (dt, milliunits, cat) (lookup, by_amount) =
     (lookup((dt, milliunits) \<mapsto> cat),
      by_amount(milliunits \<mapsto>
        (case by_amount milliunits of None \<Rightarrow> [] | Some l \<Rightarrow> l) @ [(dt, cat)]))"

fun load_loop :: "pylib \<Rightarrow> csv_row list \<Rightarrow> lookup \<times> by_amount \<Rightarrow> lookup \<times> by_amount" where
  "load_loop L [] idx = idx"
| "load_loop L (row # rows) idx =
     (case csv_entry L row of
        None \<Rightarrow> load_loop L rows idx
      | Some e \<Rightarrow> load_loop L rows (add_entry e idx))"

definition load_csv_lookup :: "pylib \<Rightarrow> csv_row list \<Rightarrow> lookup \<times> by_amount" where
  "load_csv_lookup L rows = load_loop L rows (Map.empty, Map.empty)"

text \<open>
  A transaction of the ledger as the scripts read it: \<open>tx_date\<close> is
  \<open>getattr(tx, "var_date", None) or getattr(tx, "date", None)\<close>, a \<open>date\<close> object, a
  string, or \<open>None\<close>.
\<close>

datatype py_date = DateObj date | DateStr ustr

record ledger_tx =
  tx_id :: ustr
  tx_date :: "py_date option"
  tx_amount :: "int option"
  tx_memo :: "ustr option"
  tx_category_name :: "ustr option"
  tx_deleted :: bool

text \<open>\<open>tx_date[:10]\<close> for a string, \<open>tx_date.strftime("%Y-%m-%d")\<close> for a date.\<close>

definition date_str_of :: "pylib \<Rightarrow> py_date \<Rightarrow> ustr" where
  "date_str_of L d = (case d of DateObj x \<Rightarrow> isoformat L x | DateStr s \<Rightarrow> take 10 s)"

text \<open>
  The date that \<open>strptime\<close> reads from that string (\<open>None\<close> is \<open>ValueError\<close>), and the
  date whose canonical text the string is: the only date it can be an index key for.
\<close>

definition parsed_date :: "pylib \<Rightarrow> py_date \<Rightarrow> date option" where
  "parsed_date L d = (case d of DateObj x \<Rightarrow> Some x | DateStr s \<Rightarrow> strptime L YMD (take 10 s))"

definition key_date :: "pylib \<Rightarrow> py_date \<Rightarrow> date option" where
  "key_date L d =
     (case d of
        DateObj x \<Rightarrow> Some x
      | DateStr s \<Rightarrow>
          (case strptime L YMD (take 10 s) of
             None \<Rightarrow> None
           | Some x \<Rightarrow> if isoformat L x = take 10 s then Some x else None))"

definition exact_lookup :: "pylib \<Rightarrow> lookup \<Rightarrow> py_date \<Rightarrow> int \<Rightarrow> ustr option" where
  "exact_lookup L csv_lookup d amt =
     (case key_date L d of None \<Rightarrow> None | Some x \<Rightarrow> csv_lookup (x, amt))"

definition OFFSETS :: "int list" where
  "OFFSETS = [- 2, - 1, 1, 2]"

text \<open>The \<open>for delta in [-2, -1, 1, 2]\<close> loop: the first offset whose key is present.\<close>

fun try_offsets :: "lookup \<Rightarrow> date \<Rightarrow> int \<Rightarrow> int list \<Rightarrow> ustr option" where
  "try_offsets csv_lookup d amt [] = None"
| "try_offsets csv_lookup d amt (delta # deltas) =
     (case csv_lookup (d + delta, amt) of
        Some cat \<Rightarrow> Some cat
      | None \<Rightarrow> try_offsets csv_lookup d amt deltas)"

text \<open>
  The date tolerance step, lines 208 to 219: entered when \<open>new_cat\<close> is falsy, it leaves
  \<open>new_cat\<close> as it is when the date does not parse or no offset hits.
\<close>

definition tolerance_step :: "pylib \<Rightarrow> lookup \<Rightarrow> py_date \<Rightarrow> int \<Rightarrow> ustr option \<Rightarrow> ustr option" where
  "tolerance_step L csv_lookup d amt new_cat =
     (if truthy new_cat then new_cat
      else case parsed_date L d of
             None \<Rightarrow> new_cat
           | Some x \<Rightarrow>
               (case try_offsets csv_lookup x amt OFFSETS of
                  Some cat \<Rightarrow> Some cat
                | None \<Rightarrow> new_cat))"

text \<open>The amount-only fallback, lines 220 to 223.\<close>

definition amount_fallback :: "by_amount \<Rightarrow> int \<Rightarrow> ustr option \<Rightarrow> ustr option" where
  "amount_fallback csv_by_amount amt new_cat =
     (if \<not> truthy new_cat \<and> csv_by_amount amt \<noteq> None then
        (case csv_by_amount amt of
           Some [(d, cat)] \<Rightarrow> Some cat
         | _ \<Rightarrow> new_cat)
      else new_cat)"

datatype match = Skipped | NoMatch ustr int ustr | Matched ustr

text \<open>
  The body of the loop over the uncategorized transactions, lines 195 to 226, up to the
  category found: \<open>Skipped\<close> is \<open>continue\<close> without a record, \<open>NoMatch\<close> the entry
  appended to \<open>no_match\<close>.
\<close>

definition match_tx :: "pylib \<Rightarrow> lookup \<Rightarrow> by_amount \<Rightarrow> ledger_tx \<Rightarrow> match" where
  "match_tx L csv_lookup csv_by_amount tx =
     (case tx_date tx of
        None \<Rightarrow> Skipped
      | Some d \<Rightarrow>
         (case tx_amount tx of
            None \<Rightarrow> Skipped
          | Some amt \<Rightarrow>
             (let new_cat = exact_lookup L csv_lookup d amt;
                  new_cat = tolerance_step L csv_lookup d amt new_cat;
                  new_cat = amount_fallback csv_by_amount amt new_cat
              in if truthy new_cat then Matched (or_empty new_cat)
                 else NoMatch (date_str_of L d) amt (take 80 (or_empty (tx_memo tx))))))"

section \<open>Paging through the ledger\<close>

definition PAGE_SIZE :: nat where
  "PAGE_SIZE = 500"

text \<open>
  One round of the \<open>for\<close> loop that finds \<open>latest\<close>: a transaction without a date, or with
  a string that does not parse, is passed over.
\<close>

definition later :: "pylib \<Rightarrow> ledger_tx \<Rightarrow> date option \<Rightarrow> date option" where
  "later L t latest =
     (case tx_date t of
        None \<Rightarrow> latest
      | Some d \<Rightarrow>
         (case parsed_date L d of
            None \<Rightarrow> latest
          | Some x \<Rightarrow>
             (case latest of
                None \<Rightarrow> Some x
              | Some l \<Rightarrow> if x > l then Some x else latest)))"

definition latest_date :: "pylib \<Rightarrow> ledger_tx list \<Rightarrow> date option" where
  "latest_date L txs = fold (later L) txs None"

text \<open>
  The end of one round of the \<open>while True\<close> loop in \<open>ynab_import\<close> and
  \<open>ynab_apply_csv_categories\<close>: \<open>None\<close> is \<open>break\<close>, \<open>Some s\<close> the next \<open>since\<close>.
\<close>

definition next_since :: "pylib \<Rightarrow> ledger_tx list \<Rightarrow> date option" where
  "next_since L txs =
     (if length txs < PAGE_SIZE \<or> txs = [] then None
      else case latest_date L txs of
             None \<Rightarrow> None
           | Some latest \<Rightarrow> Some (latest + 1))"

text \<open>The same in \<open>ynab_cleanup_amazon\<close>, with the cutoff \<open>END_DATE\<close>.\<close>

definition START_DATE :: date where
  "START_DATE = ymd 2025 12 2"

definition END_DATE :: date where
  "END_DATE = ymd 2026 1 31"

definition next_since_cleanup :: "pylib \<Rightarrow> ledger_tx list \<Rightarrow> date option" where
  "next_since_cleanup L txs =
     (if length txs < 500 \<or> txs = [] then None
      else case latest_date L txs of
             None \<Rightarrow> None
           | Some latest \<Rightarrow> if latest \<ge> END_DATE then None else Some (latest + 1))"

text \<open>
  The ledger answers \<open>get_transactions_by_account(since_date=since)\<close> with a page, or
  with an \<open>ApiException\<close> (\<open>None\<close>). A loop is run with fuel: \<open>None\<close> is a loop that has not
  ended when the fuel is used up.
\<close>

type_synonym ledger = "date \<Rightarrow> ledger_tx list option"

datatype ('s, 'r) iter = Again 's | Done 'r

fun run_loop :: "nat \<Rightarrow> ('s \<Rightarrow> ('s, 'r) iter) \<Rightarrow> 's \<Rightarrow> 'r option" where
  "run_loop 0 body s = None"
| "run_loop (Suc fuel) body s =
     (case body s of
        Done r \<Rightarrow> Some r
      | Again s' \<Rightarrow> run_loop fuel body s')"

text \<open>\<open>ynab_apply_csv_categories\<close>, lines 154 to 185; an \<open>ApiException\<close> ends the run.\<close>

definition apply_round ::
  "pylib \<Rightarrow> ledger \<Rightarrow> date \<times> ledger_tx list \<Rightarrow> (date \<times> ledger_tx list, error + ledger_tx list) iter" where
  "apply_round L server st =
     (case st of (since, all_txs) \<Rightarrow>
        (case server since of
           None \<Rightarrow> Done (Inl ApiException)
         | Some txs \<Rightarrow>
            (let all_txs = all_txs @ filter (\<lambda>tx. \<not> tx_deleted tx) txs
             in case next_since L txs of
                  None \<Rightarrow> Done (Inr all_txs)
                | Some s \<Rightarrow> Again (s, all_txs))))"

definition apply_fetch :: "nat \<Rightarrow> pylib \<Rightarrow> ledger \<Rightarrow> (error + ledger_tx list) option" where
  "apply_fetch fuel L server = run_loop fuel (apply_round L server) (ymd 2025 12 1, [])"

text \<open>\<open>ynab_cleanup_amazon\<close>, lines 143 to 183.\<close>

definition in_range :: "pylib \<Rightarrow> ledger_tx \<Rightarrow> bool" where
  "in_range L tx =
     (\<not> tx_deleted tx \<and>
      (case tx_date tx of
         None \<Rightarrow> False
       | Some d \<Rightarrow>
          (case parsed_date L d of
             None \<Rightarrow> False
           | Some x \<Rightarrow> START_DATE \<le> x \<and> x \<le> END_DATE)))"

definition cleanup_round ::
  "pylib \<Rightarrow> ledger \<Rightarrow> date \<times> ledger_tx list \<Rightarrow> (date \<times> ledger_tx list, error + ledger_tx list) iter" where
  "cleanup_round L server st =
     (case st of (since, all_txs) \<Rightarrow>
        (case server since of
           None \<Rightarrow> Done (Inl ApiException)
         | Some txs \<Rightarrow>
            (let all_txs = all_txs @ filter (in_range L) txs
             in case next_since_cleanup L txs of
                  None \<Rightarrow> Done (Inr all_txs)
                | Some s \<Rightarrow> Again (s, all_txs))))"

definition cleanup_fetch :: "nat \<Rightarrow> pylib \<Rightarrow> ledger \<Rightarrow> (error + ledger_tx list) option" where
  "cleanup_fetch fuel L server = run_loop fuel (cleanup_round L server) (START_DATE, [])"

text \<open>
  \<open>ynab_import\<close>, lines 118 to 157: the loop fills \<open>existing_by_amount\<close>; an
  \<open>ApiException\<close> is caught around the loop and keeps what was loaded.
\<close>

type_synonym existing = "int option \<rightharpoonup> date list"

definition record_existing :: "pylib \<Rightarrow> ledger_tx \<Rightarrow> existing \<Rightarrow> existing" where
  "record_existing L tx existing_by_amount =
     (if tx_deleted tx then existing_by_amount
      else case tx_date tx of
             None \<Rightarrow> existing_by_amount
           | Some d \<Rightarrow>
              (case parsed_date L d of
                 None \<Rightarrow> existing_by_amount
               | Some dt_obj \<Rightarrow>
                   existing_by_amount(tx_amount tx \<mapsto>
                     (case existing_by_amount (tx_amount tx) of None \<Rightarrow> [] | Some l \<Rightarrow> l)
                     @ [dt_obj])))"

definition import_round ::
  "pylib \<Rightarrow> ledger \<Rightarrow> date \<times> existing \<Rightarrow> (date \<times> existing, existing) iter" where
  "import_round L server st =
     (case st of (since, existing_by_amount) \<Rightarrow>
        (case server since of
           None \<Rightarrow> Done existing_by_amount
         | Some txs \<Rightarrow>
            (let existing_by_amount = fold (record_existing L) txs existing_by_amount
             in case next_since L txs of
                  None \<Rightarrow> Done existing_by_amount
                | Some s \<Rightarrow> Again (s, existing_by_amount))))"

definition import_fetch :: "nat \<Rightarrow> pylib \<Rightarrow> ledger \<Rightarrow> int \<Rightarrow> date \<Rightarrow> existing option" where
  "import_fetch fuel L server DAYS_TOLERANCE min_csv_date =
     run_loop fuel (import_round L server) (min_csv_date - DAYS_TOLERANCE, Map.empty)"

text \<open>
  The cursor step of a loop: the round at \<open>since\<close> fetches a page and goes on at \<open>s'\<close>.
\<close>

definition advances :: "pylib \<Rightarrow> ledger \<Rightarrow> date \<Rightarrow> date \<Rightarrow> bool" where
  "advances L server since s' =
     (case server since of None \<Rightarrow> False | Some txs \<Rightarrow> next_since L txs = Some s')"

definition advances_cleanup :: "pylib \<Rightarrow> ledger \<Rightarrow> date \<Rightarrow> date \<Rightarrow> bool" where
  "advances_cleanup L server since s' =
     (case server since of None \<Rightarrow> False | Some txs \<Rightarrow> next_since_cleanup L txs = Some s')"

text \<open>
  The ledger honours \<open>since_date\<close>: every dated transaction of a page is dated on or after
  the \<open>since\<close> of its request.
\<close>

definition honours_since :: "pylib \<Rightarrow> ledger \<Rightarrow> bool" where
  "honours_since L server =
     (\<forall>since txs tx d x. server since = Some txs \<longrightarrow> tx \<in> set txs \<longrightarrow> tx_date tx = Some d \<longrightarrow>
        parsed_date L d = Some x \<longrightarrow> since \<le> x)"

section \<open>The importer (\<open>ynab_import\<close>)\<close>

text \<open>
  The body of the first pass over the CSV, lines 77 to 98: \<open>Inr None\<close> is \<open>continue\<close>;
  \<open>strip\<close> on a cell that is \<open>None\<close> raises.
\<close>

definition import_row :: "pylib \<Rightarrow> csv_row \<Rightarrow> error + (date \<times> int \<times> csv_row \<times> ustr) option" where
  "import_row L row =
     (case row_get row (str ''Date'') (Some []) of
        None \<Rightarrow> Inl AttributeError
      | Some date_cell \<Rightarrow>
         (let date_str = strip L date_cell
          in if date_str = [] then Inr None
             else case (case strptime L (str ''%Y-%m-%d'') date_str of
                          Some d \<Rightarrow> Some d
                        | None \<Rightarrow> strptime L (str ''%m/%d/%Y'') date_str) of
               None \<Rightarrow> Inr None
             | Some date_obj \<Rightarrow>
                (case row_get row (str ''Amount'') (Some (str ''0'')) of
                   None \<Rightarrow> Inl AttributeError
                 | Some amount_cell \<Rightarrow>
                    (case float_of L (remove_all (str '','') (strip L amount_cell)) of
                       None \<Rightarrow> Inr None
                     | Some raw \<Rightarrow>
                        (let amount = outflow_milliunits raw
                         in if amount = 0 then Inr None
                            else Inr (Some (date_obj, amount, row,
                                   strip L (or_empty (row_get row (str ''OrderId'') None)))))))))"

fun read_rows :: "pylib \<Rightarrow> csv_row list \<Rightarrow> error + (date \<times> int \<times> csv_row \<times> ustr) list" where
  "read_rows L [] = Inr []"
| "read_rows L (row # rows) =
     (case import_row L row of
        Inl e \<Rightarrow> Inl e
      | Inr None \<Rightarrow> read_rows L rows
      | Inr (Some r) \<Rightarrow>
          (case read_rows L rows of
             Inl e \<Rightarrow> Inl e
           | Inr raw_rows \<Rightarrow> Inr (r # raw_rows)))"

text \<open>
  Grouping, lines 105 to 110: \<open>groups\<close> is a dict of lists in insertion order, here a
  list of pairs with one pair per key.
\<close>

definition group_key :: "pylib \<Rightarrow> date \<times> int \<times> csv_row \<times> ustr \<Rightarrow> ustr" where
  "group_key L r =
     (case r of (date_obj, amount, row, order_id) \<Rightarrow>
        if order_id \<noteq> [] then order_id
        else isoformat L date_obj @ str ''|'' @ str_int amount @ str ''|''
             @ take 60 (or_empty (row_get row (str ''Memo'') None)))"

fun group_add :: "ustr \<Rightarrow> 'a \<Rightarrow> (ustr \<times> 'a list) list \<Rightarrow> (ustr \<times> 'a list) list" where
  "group_add k v [] = [(k, [v])]"
| "group_add k v ((k', vs) # groups) =
     (if k = k' then (k', vs @ [v]) # groups else (k', vs) # group_add k v groups)"

definition group_rows ::
  "pylib \<Rightarrow> (date \<times> int \<times> csv_row \<times> ustr) list \<Rightarrow> (ustr \<times> (date \<times> int \<times> csv_row) list) list" where
  "group_rows L raw_rows =
     fold (\<lambda>r groups.
             case r of (date_obj, amount, row, order_id) \<Rightarrow>
               group_add (group_key L r) (date_obj, amount, row) groups)
          raw_rows []"

definition is_duplicate :: "existing \<Rightarrow> int \<Rightarrow> date \<Rightarrow> int \<Rightarrow> bool" where
  "is_duplicate existing_by_amount DAYS_TOLERANCE import_date import_amount =
     (case existing_by_amount (Some import_amount) of
        None \<Rightarrow> False
      | Some dates \<Rightarrow>
          list_ex (\<lambda>existing_date. \<bar>import_date - existing_date\<bar> \<le> DAYS_TOLERANCE) dates)"

definition CATEGORY_MAPPING :: "ustr \<rightharpoonup> ustr" where
  "CATEGORY_MAPPING =
     map_of [(str ''amazon.ca'', str ''Online Shopping''), (str ''sobeys'', str ''Groceries''),
             (str ''tim hortons'', str ''Dining Out''),
             (str ''payroll - employer name'', str ''Income'')]"

definition DEFAULT_CATEGORY_NAME :: ustr where
  "DEFAULT_CATEGORY_NAME = str ''Uncategorized''"

text \<open>The category id of \<open>category_for_row\<close> (the name it also returns is only printed).\<close>

definition category_for_row :: "pylib \<Rightarrow> (ustr \<rightharpoonup> ustr) \<Rightarrow> csv_row \<Rightarrow> ustr option" where
  "category_for_row L category_id_map row =
     (let row_category = strip L (or_empty (row_get row (str ''Category'') None))
      in if row_category \<noteq> [] then category_id_map (lower L row_category)
         else let payee_lower = lower L (strip L (or_empty (row_get row (str ''Payee'') None)));
                  name = (case CATEGORY_MAPPING payee_lower of
                            None \<Rightarrow> DEFAULT_CATEGORY_NAME | Some n \<Rightarrow> n)
              in if name \<noteq> [] then category_id_map (lower L name) else None)"

text \<open>\<open>cat_amounts[cat_id] += amt\<close> on a \<open>defaultdict(int)\<close>, in insertion order.\<close>

fun cat_add :: "ustr option \<Rightarrow> int \<Rightarrow> (ustr option \<times> int) list \<Rightarrow> (ustr option \<times> int) list" where
  "cat_add k amt [] = [(k, amt)]"
| "cat_add k amt ((k', v) # m) =
     (if k = k' then (k', v + amt) # m else (k', v) # cat_add k amt m)"

definition cat_amounts_of ::
  "pylib \<Rightarrow> (ustr \<rightharpoonup> ustr) \<Rightarrow> (date \<times> int \<times> csv_row) list \<Rightarrow> (ustr option \<times> int) list" where
  "cat_amounts_of L category_id_map grp =
     fold (\<lambda>r m. case r of (d, amt, row) \<Rightarrow> cat_add (category_for_row L category_id_map row) amt m)
          grp []"

record new_transaction =
  new_date :: date
  new_amount :: int
  payee_name :: "ustr option"
  memo :: "ustr option"
  category_id :: "ustr option"
  import_id :: ustr
  subtransactions :: "(int \<times> ustr option) list option"

text \<open>The f-string of lines 201 and 219.\<close>

definition import_id_of :: "pylib \<Rightarrow> int \<Rightarrow> date \<Rightarrow> ustr" where
  "import_id_of L total_amount date_obj =
     str ''YNAB:'' @ str_int total_amount @ str '':'' @ isoformat L date_obj @ str '':1''"

text \<open>
  The body of the loop over the groups, lines 179 to 233: \<open>None\<close> where the group adds no
  transaction (a zero total, a duplicate).
\<close>

definition group_transaction ::
  "pylib \<Rightarrow> (ustr \<rightharpoonup> ustr) \<Rightarrow> existing \<Rightarrow> int \<Rightarrow> (date \<times> int \<times> csv_row) list \<Rightarrow>
     new_transaction option" where
  "group_transaction L category_id_map existing_by_amount DAYS_TOLERANCE grp =
     (case grp of
        [] \<Rightarrow> None
      | (date_obj, a0, row0) # rest \<Rightarrow>
         (let total_amount = sum_list (map (\<lambda>r. fst (snd r)) grp)
          in if total_amount = 0 then None
             else if is_duplicate existing_by_amount DAYS_TOLERANCE date_obj total_amount then None
             else
              (let p = strip L (or_empty (row_get row0 (str ''Payee'') None));
                   payee = (if p \<noteq> [] then p else str ''Amazon.ca'');
                   m = take 500 (strip L (or_empty (row_get row0 (str ''Memo'') None)));
                   cat_amounts = cat_amounts_of L category_id_map grp
               in case cat_amounts of
                    [] \<Rightarrow> None
                  | [(only_cat_id, camt)] \<Rightarrow>
                      Some \<lparr> new_date = date_obj, new_amount = total_amount,
                             payee_name = (if payee \<noteq> [] then Some payee else None),
                             memo = (if m \<noteq> [] then Some m else None),
                             category_id = only_cat_id,
                             import_id = import_id_of L total_amount date_obj,
                             subtransactions = None \<rparr>
                  | _ \<Rightarrow>
                      Some \<lparr> new_date = date_obj, new_amount = total_amount,
                             payee_name = (if payee \<noteq> [] then Some payee else None),
                             memo = Some (take 500
                               (if m \<noteq> [] then m
                                else str ''Order '' @ isoformat L date_obj @ str '' (split)'')),
                             category_id = None,
                             import_id = import_id_of L total_amount date_obj,
                             subtransactions =
                               Some (map (\<lambda>(cid, camt). (camt, cid)) cat_amounts) \<rparr>)))"

definition transactions_to_import ::
  "pylib \<Rightarrow> (ustr \<rightharpoonup> ustr) \<Rightarrow> existing \<Rightarrow> int \<Rightarrow> (ustr \<times> (date \<times> int \<times> csv_row) list) list \<Rightarrow>
     new_transaction list" where
  "transactions_to_import L category_id_map existing_by_amount DAYS_TOLERANCE groups =
     List.map_filter
       (\<lambda>(key, grp). group_transaction L category_id_map existing_by_amount DAYS_TOLERANCE grp)
       groups"

text \<open>
  From the rows of the CSV to the batch handed to \<open>create_transaction\<close>, for the
  \<open>existing_by_amount\<close> that the duplicate check loaded.
\<close>

definition import_batch ::
  "pylib \<Rightarrow> (ustr \<rightharpoonup> ustr) \<Rightarrow> existing \<Rightarrow> int \<Rightarrow> csv_row list \<Rightarrow> error + new_transaction list" where
  "import_batch L category_id_map existing_by_amount DAYS_TOLERANCE rows =
     (case read_rows L rows of
        Inl e \<Rightarrow> Inl e
      | Inr raw_rows \<Rightarrow>
          Inr (transactions_to_import L category_id_map existing_by_amount DAYS_TOLERANCE
                 (group_rows L raw_rows)))"

section \<open>A fragment of the library\<close>

text \<open>
  A fragment of CPython's library, enough to run the definitions on concrete inputs: the
  whitespace characters of \<open>str.isspace\<close>; the case mapping of the ASCII letters; the
  category \<open>So\<close> on the copyright, registered and degree signs and on the pictograph
  blocks U+1F300..U+1F64F and U+1F900..U+1F9FF (without the modifiers U+1F3FB..U+1F3FF);
  \<open>float\<close> and \<open>int\<close> on plain decimal literals; \<open>strptime\<close> for the two numeric formats
  \<open>%Y-%m-%d\<close> and \<open>%m/%d/%Y\<close>; \<open>isoformat\<close> by the computation of \<open>datetime\<close>. The regular
  expressions find nothing and \<open>json.loads\<close> decodes nothing in this fragment.
\<close>

definition frag_isspace :: "nat \<Rightarrow> bool" where
  "frag_isspace c =
     ((9 \<le> c \<and> c \<le> 13) \<or> (28 \<le> c \<and> c \<le> 32) \<or> c = 133 \<or> c = 160 \<or> c = 5760
      \<or> (8192 \<le> c \<and> c \<le> 8202) \<or> c = 8232 \<or> c = 8233 \<or> c = 8239 \<or> c = 8287
      \<or> c = 12288)"

definition frag_So :: "nat \<Rightarrow> bool" where
  "frag_So c =
     (c = 169 \<or> c = 174 \<or> c = 176
      \<or> (127744 \<le> c \<and> c \<le> 128591 \<and> \<not> (127995 \<le> c \<and> c \<le> 127999))
      \<or> (129280 \<le> c \<and> c \<le> 129535))"

definition frag_lower :: "ustr \<Rightarrow> ustr" where
  "frag_lower s = map (\<lambda>c. if 65 \<le> c \<and> c \<le> 90 then c + 32 else c) s"

definition is_digit :: "nat \<Rightarrow> bool" where
  "is_digit c = (48 \<le> c \<and> c \<le> 57)"

definition digits_value :: "ustr \<Rightarrow> nat" where
  "digits_value ds = foldl (\<lambda>n c. 10 * n + (c - 48)) 0 ds"

definition frag_decimal :: "ustr \<Rightarrow> rat option" where
  "frag_decimal s =
     (let ip = takeWhile is_digit s; rest = dropWhile is_digit s
      in case rest of
           [] \<Rightarrow> if ip = [] then None else Some (of_nat (digits_value ip))
         | c # fp \<Rightarrow>
             if c = 46 \<and> list_all is_digit fp \<and> (ip \<noteq> [] \<or> fp \<noteq> [])
             then Some (of_nat (digits_value (ip @ fp)) / 10 ^ length fp)
             else None)"

definition frag_float :: "ustr \<Rightarrow> rat option" where
  "frag_float s =
     (case s of
        [] \<Rightarrow> None
      | c # t \<Rightarrow>
          if c = 45 then map_option uminus (frag_decimal t)
          else if c = 43 then frag_decimal t
          else frag_decimal s)"

definition frag_int :: "ustr \<Rightarrow> int option" where
  "frag_int s =
     (case s of
        [] \<Rightarrow> None
      | c # t \<Rightarrow>
          if c = 45 then (if t \<noteq> [] \<and> list_all is_digit t then Some (- int (digits_value t)) else None)
          else if list_all is_digit s then Some (int (digits_value s))
          else None)"

fun split_on :: "nat \<Rightarrow> ustr \<Rightarrow> ustr list" where
  "split_on sep [] = [[]]"
| "split_on sep (c # cs) =
     (if c = sep then [] # split_on sep cs
      else case split_on sep cs of
             [] \<Rightarrow> [[c]]
           | p # ps \<Rightarrow> (c # p) # ps)"

definition days_in_month :: "int \<Rightarrow> int \<Rightarrow> int" where
  "days_in_month y m =
     (if m = 2 \<and> is_leap y then 29
      else [31, 28, 31, 30, 31, 30, 31, 31, 30, 31, 30, 31] ! nat (m - 1))"

definition field_ok :: "nat \<Rightarrow> nat \<Rightarrow> ustr \<Rightarrow> bool" where
  "field_ok lo hi f = (lo \<le> length f \<and> length f \<le> hi \<and> list_all is_digit f)"

definition date_of_fields :: "ustr \<Rightarrow> ustr \<Rightarrow> ustr \<Rightarrow> date option" where
  "date_of_fields yf mf df =
     (if field_ok 4 4 yf \<and> field_ok 1 2 mf \<and> field_ok 1 2 df then
        (let y = int (digits_value yf); m = int (digits_value mf); d = int (digits_value df)
         in if 1 \<le> y \<and> 1 \<le> m \<and> m \<le> 12 \<and> 1 \<le> d \<and> d \<le> days_in_month y m
            then Some (ymd y m d) else None)
      else None)"

definition frag_strptime :: "ustr \<Rightarrow> ustr \<Rightarrow> date option" where
  "frag_strptime fmt s =
     (if fmt = str ''%Y-%m-%d'' then
        (case split_on 45 s of [yf, mf, df] \<Rightarrow> date_of_fields yf mf df | _ \<Rightarrow> None)
      else if fmt = str ''%m/%d/%Y'' then
        (case split_on 47 s of [mf, df, yf] \<Rightarrow> date_of_fields yf mf df | _ \<Rightarrow> None)
      else None)"

text \<open>Year, month and day of an ordinal, as \<open>datetime\<close> computes them.\<close>

definition ord2ymd :: "int \<Rightarrow> int \<times> int \<times> int" where
  "ord2ymd ordinal =
     (let n = ordinal - 1;
          n400 = n div 146097; n = n mod 146097;
          n100 = n div 36524; n = n mod 36524;
          n4 = n div 1461; n = n mod 1461;
          n1 = n div 365; n = n mod 365;
          year = n400 * 400 + 1 + n100 * 100 + n4 * 4 + n1
      in if n1 = 4 \<or> n100 = 4 then (year - 1, 12, 31)
         else
          (let month = (n + 50) div 32;
               preceding = days_before_month year month
           in if preceding > n
              then (year, month - 1, n - (preceding - days_in_month year (month - 1)) + 1)
              else (year, month, n - preceding + 1)))"

definition zpad :: "nat \<Rightarrow> int \<Rightarrow> ustr" where
  "zpad w n = replicate (w - length (digits (nat n))) 48 @ digits (nat n)"

definition frag_isoformat :: "date \<Rightarrow> ustr" where
  "frag_isoformat d =
     (case ord2ymd d of (y, m, dd) \<Rightarrow> zpad 4 y @ str ''-'' @ zpad 2 m @ str ''-'' @ zpad 2 dd)"

definition frag :: pylib where
  "frag = \<lparr> category_So = frag_So, isspace = frag_isspace, lower = frag_lower,
      float_of = frag_float, str_of_float = (\<lambda>_. []), int_of = frag_int,
      strptime = frag_strptime, isoformat = frag_isoformat,
      search_iso = (\<lambda>_. None), search_us = (\<lambda>_. None),
      sub_fence_open = (\<lambda>s. s), sub_fence_close = (\<lambda>s. s), json_loads = (\<lambda>_. None) \<rparr>"

text \<open>Sample input: the columns of an export and a row with a date, a total and a title.\<close>

definition sample_cols :: columns where
  "sample_cols = \<lparr> date_col = str ''Order Date'', amount_col = str ''Item Total'',
      memo_col = Some (str ''Item Title''), order_id_col = None, order_total_col = None \<rparr>"

definition sample_row :: "string \<Rightarrow> string \<Rightarrow> string \<Rightarrow> csv_row" where
  "sample_row d a m =
     map_of [(str ''Order Date'', Some (str d)), (str ''Item Total'', Some (str a)),
             (str ''Item Title'', Some (str m))]"

text \<open>
  What the rows of a CSV contribute to the indexes of \<open>load_csv_lookup\<close>: the entries of
  the rows that are not passed over, in order, and those of one amount.
\<close>

definition entries :: "pylib \<Rightarrow> csv_row list \<Rightarrow> (date \<times> int \<times> ustr) list" where
  "entries L rows = List.map_filter (csv_entry L) rows"

definition contributions :: "pylib \<Rightarrow> csv_row list \<Rightarrow> int \<Rightarrow> (date \<times> ustr) list" where
  "contributions L rows amt =
     map (\<lambda>(d, m, cat). (d, cat)) (filter (\<lambda>(d, m, cat). m = amt) (entries L rows))"

text \<open>Sample input: rows of the output CSV, transactions of the ledger.\<close>

definition ready_row :: "string \<Rightarrow> string \<Rightarrow> string \<Rightarrow> string \<Rightarrow> string \<Rightarrow> csv_row" where
  "ready_row d m a c oid =
     map_of [(str ''Date'', Some (str d)), (str ''Payee'', Some (str ''Amazon.ca'')),
             (str ''Memo'', Some (str m)), (str ''Amount'', Some (str a)),
             (str ''Category'', Some (str c)), (str ''OrderId'', Some (str oid))]"

definition sample_tx :: "py_date \<Rightarrow> int \<Rightarrow> ledger_tx" where
  "sample_tx d amt = \<lparr> tx_id = str ''t1'', tx_date = Some d, tx_amount = Some amt,
      tx_memo = Some (str ''Amazon''), tx_category_name = None, tx_deleted = False \<rparr>"

definition ambiguous_rows :: "csv_row list" where
  "ambiguous_rows = [ready_row ''2025-12-01'' ''milk'' ''-1.999'' ''Groceries'' '''',
                     ready_row ''2025-12-20'' ''shirt'' ''-1.999'' ''Wardrobe'' '''']"

definition refund_rows :: "csv_row list" where
  "refund_rows = [ready_row ''2025-12-10'' ''refund issued'' ''12.34'' ''Wardrobe'' '''']"

definition lamp_rows :: "csv_row list" where
  "lamp_rows = [ready_row ''2025-12-10'' ''desk lamp'' ''-4.50'' ''Home'' '''']"

text \<open>Sample environments: no API key; a service that answers in prose.\<close>

definition offline_env :: ai_env where
  "offline_env = \<lparr> api_key = None, messages_create = (\<lambda>n categories memos. Raises) \<rparr>"

definition prose_env :: ai_env where
  "prose_env = \<lparr> api_key = Some (str ''key''),
      messages_create = (\<lambda>n categories memos. Content [Some (str ''Sorry, I cannot help.'')]) \<rparr>"

text \<open>The dates of a page: those of the transactions that have a date that parses.\<close>

definition page_dates :: "pylib \<Rightarrow> ledger_tx list \<Rightarrow> date list" where
  "page_dates L txs =
     List.map_filter (\<lambda>t. case tx_date t of None \<Rightarrow> None | Some d \<Rightarrow> parsed_date L d) txs"


text \<open>
  Sample import: an order of three rows in two categories and a single row, on one date
  and with one total; the category ids of the budget; the transactions they become.
\<close>

definition sample_ids :: "ustr \<rightharpoonup> ustr" where
  "sample_ids = map_of [(str ''home'', str ''c1''), (str ''kids'', str ''c2'')]"

definition lamp_row :: csv_row where
  "lamp_row = ready_row ''2025-12-10'' ''lamp'' ''-10'' ''Home'' ''A1''"

definition bulb_row :: csv_row where
  "bulb_row = ready_row ''2025-12-10'' ''bulb'' ''-5'' ''Home'' ''A1''"

definition toy_row :: csv_row where
  "toy_row = ready_row ''2025-12-10'' ''toy'' ''-20'' ''Kids'' ''A1''"

definition desk_row :: csv_row where
  "desk_row = ready_row ''2025-12-10'' ''desk'' ''-35'' ''Home'' ''B2''"

definition order_rows :: "csv_row list" where
  "order_rows = [lamp_row, bulb_row, toy_row, desk_row]"

definition split_tx :: new_transaction where
  "split_tx = \<lparr> new_date = ymd 2025 12 10, new_amount = - 35000,
      payee_name = Some (str ''Amazon.ca''), memo = Some (str ''lamp''), category_id = None,
      import_id = str ''YNAB:-35000:2025-12-10:1'',
      subtransactions = Some [(- 15000, Some (str ''c1'')), (- 20000, Some (str ''c2''))] \<rparr>"

definition single_tx :: new_transaction where
  "single_tx = \<lparr> new_date = ymd 2025 12 10, new_amount = - 35000,
      payee_name = Some (str ''Amazon.ca''), memo = Some (str ''desk''),
      category_id = Some (str ''c1''),
      import_id = str ''YNAB:-35000:2025-12-10:1'', subtransactions = None \<rparr>"

text \<open>Sample input: a row whose amount is zero, before and after the normalizer.\<close>

definition zero_row :: csv_row where
  "zero_row = sample_row ''2025-12-10'' ''0'' ''free sample''"

definition zero_record :: row_out where
  "zero_record = \<lparr> Date = str ''2025-12-10'', Payee = str ''Amazon.ca'', Memo = str ''free sample'',
      Amount = 0, Category = str ''Uncategorized'', OrderId = [] \<rparr>"

definition zero_ready_row :: csv_row where
  "zero_ready_row = ready_row ''2025-12-10'' ''free sample'' ''0'' ''Uncategorized'' []"

section \<open>Properties of the resolver\<close>

lemma resolve_loop_find:
  "resolve_loop L n cats =
     (case find (related L n) cats of Some c \<Rightarrow> c | None \<Rightarrow> DEFAULT_CATEGORY)"
  by (induction cats) (auto simp: related_def)

lemma resolve_loop_apply_eq: "resolve_loop_apply L n cats = resolve_loop L n cats"
  by (induction cats) (auto simp: DEFAULT_CATEGORY_def)

lemma frag_simps:
  "category_So frag = frag_So" "isspace frag = frag_isspace" "lower frag = frag_lower"
  "float_of frag = frag_float" "int_of frag = frag_int" "strptime frag = frag_strptime"
  "isoformat frag = frag_isoformat" "search_iso frag = (\<lambda>_. None)"
  "search_us frag = (\<lambda>_. None)" "json_loads frag = (\<lambda>_. None)"
  "sub_fence_open frag = (\<lambda>s. s)" "sub_fence_close frag = (\<lambda>s. s)"
  by (simp_all add: frag_def)

lemmas run_strings =
  str_def strip_def normalize_name_def frag_simps frag_So_def frag_isspace_def frag_lower_def
  or_empty_def DEFAULT_CATEGORY_def sublist_Cons_right Let_def

text \<open>
  C1 (as amended). The resolver strips the response of surrounding whitespace and returns
  it when it is an element of the vocabulary. Otherwise it makes one pass over the
  vocabulary and returns the first entry, in vocabulary order, whose normal form equals
  the normal form of the response or has it as a substring or is a substring of it; when
  no entry is so related it returns \<open>Uncategorized\<close>. Both copies of the resolver compute
  this. The response \<open>Kids Supplies\<close> followed by the baby emoji (U+1F476) resolves to
  \<open>Kids Supplies\<close> against the vocabulary \<open>Kids Supplies\<close>, \<open>Wardrobe\<close>, and
  \<open>totally unknown\<close> resolves to \<open>Uncategorized\<close>.
\<close>

theorem resolve_category_first_related:
  "resolve_category L r vocab =
     (let s = strip L (or_empty r); n = normalize_name L s
      in if s \<in> set vocab then s
         else case find (related L n) vocab of Some c \<Rightarrow> c | None \<Rightarrow> DEFAULT_CATEGORY)
   \<and> resolve_category_apply L r vocab = resolve_category L r vocab
   \<and> resolve_category frag (Some (str ''Kids Supplies '' @ [128118]))
         [str ''Kids Supplies'', str ''Wardrobe''] = str ''Kids Supplies''
   \<and> resolve_category frag (Some (str ''totally unknown''))
         [str ''Kids Supplies'', str ''Wardrobe''] = str ''Uncategorized''"
proof -
  have general: "resolve_category L r vocab =
     (let s = strip L (or_empty r); n = normalize_name L s
      in if s \<in> set vocab then s
         else case find (related L n) vocab of Some c \<Rightarrow> c | None \<Rightarrow> DEFAULT_CATEGORY)"
    by (simp add: resolve_category_def resolve_loop_find Let_def)
  have copies: "resolve_category_apply L r vocab = resolve_category L r vocab"
    by (simp add: resolve_category_def resolve_category_apply_def resolve_loop_apply_eq Let_def)
  have emoji: "resolve_category frag (Some (str ''Kids Supplies '' @ [128118]))
         [str ''Kids Supplies'', str ''Wardrobe''] = str ''Kids Supplies''"
    by (simp add: resolve_category_def run_strings)
  have unknown: "resolve_category frag (Some (str ''totally unknown''))
         [str ''Kids Supplies'', str ''Wardrobe''] = str ''Uncategorized''"
    by (simp add: resolve_category_def run_strings)
  from general copies emoji unknown show ?thesis by blast
qed

text \<open>
  C1 as stated fails: the stage of equal normal forms has no priority over the substring
  stage across the vocabulary. The response \<open>kids\<close> against the vocabulary
  \<open>Kids Supplies\<close>, \<open>Kids\<close> resolves to \<open>Kids Supplies\<close>, whose normal form only contains
  that of the response, although the later entry \<open>Kids\<close> has the same normal form.
\<close>

theorem resolve_category_substring_before_equal:
  "resolve_category frag (Some (str ''kids'')) [str ''Kids Supplies'', str ''Kids'']
     = str ''Kids Supplies''
   \<and> normalize_name frag (str ''Kids'') = normalize_name frag (str ''kids'')
   \<and> normalize_name frag (str ''Kids Supplies'') \<noteq> normalize_name frag (str ''kids'')
   \<and> str ''kids'' \<notin> set [str ''Kids Supplies'', str ''Kids'']"
  by (simp add: resolve_category_def run_strings)

text \<open>
  The first stage tests the stripped response, not the response as given: a response that
  is an element of the vocabulary with its leading blank is not returned.
\<close>

lemma resolve_category_strips_first:
  "resolve_category frag (Some (str '' Kids'')) [str ''Kids Supplies'', str '' Kids'']
     = str ''Kids Supplies''"
  by (simp add: resolve_category_def run_strings)

section \<open>Properties of the record parser\<close>

lemmas run_lib = run_strings frag_float_def frag_decimal_def is_digit_def digits_value_def
  frag_int_def frag_strptime_def date_of_fields_def field_ok_def days_in_month_def is_leap_def
  ymd_def days_before_year_def days_before_month_def frag_isoformat_def ord2ymd_def zpad_def
  digits.simps str_int_def

lemma amount_ynab_cases:
  "amount_ynab L a m =
     (if 0 < a \<and> list_ex (\<lambda>w. sublist w (lower L m)) REFUND_WORDS then a else - \<bar>a\<bar>)"
  by (simp add: amount_ynab_def)

lemma order_id_of_cases:
  "order_id_of L cols row d = Inl AttributeError \<or> (\<exists>x. order_id_of L cols row d = Inr x)"
  by (auto simp: order_id_of_def split: option.splits)

text \<open>
  C2. For a row whose date and amount parse (to \<open>d\<close> and \<open>a\<close>), the row loop either stops
  on a missing order id cell or yields a record whose amount is \<open>a\<close> when \<open>a\<close> is positive
  and the lower-cased memo (the memo cell stripped and cut to 500 characters) contains
  \<open>return\<close>, \<open>refund\<close> or \<open>reimbursement\<close>, and \<open>- \<bar>a\<bar>\<close> in every other case (zero for
  zero). Amount 12.34 with memo \<open>refund issued\<close> gives 12.34, with \<open>wireless mouse\<close> it
  gives -12.34.
\<close>

theorem process_row_sign:
  assumes d: "parse_date L (row_get row (date_col cols) (Some [])) = Some d" and ne: "d \<noteq> []"
    and a: "parse_amount L (row_get row (amount_col cols) (Some [])) = Some a"
  shows "(process_row L cols row = Inl AttributeError \<or>
          (\<exists>r. process_row L cols row = Inr (Some r) \<and>
               Amount r =
                 (if 0 < a \<and> list_ex (\<lambda>w. sublist w
                       (lower L (take 500 (strip L (or_empty (col_get row (memo_col cols)))))))
                     REFUND_WORDS
                  then a else - \<bar>a\<bar>)))
         \<and> amount_ynab frag (1234 / 100) (str ''refund issued'') = 1234 / 100
         \<and> amount_ynab frag (1234 / 100) (str ''wireless mouse'') = - (1234 / 100)"
proof -
  have row: "process_row L cols row = Inl AttributeError \<or>
          (\<exists>r. process_row L cols row = Inr (Some r) \<and>
               Amount r =
                 (if 0 < a \<and> list_ex (\<lambda>w. sublist w
                       (lower L (take 500 (strip L (or_empty (col_get row (memo_col cols)))))))
                     REFUND_WORDS
                  then a else - \<bar>a\<bar>))"
    using order_id_of_cases [of L cols row d] d ne a
    by (auto simp: process_row_def Let_def amount_ynab_cases)
  have refund: "amount_ynab frag (1234 / 100) (str ''refund issued'') = 1234 / 100"
    by (simp add: amount_ynab_def REFUND_WORDS_def run_strings)
  have mouse: "amount_ynab frag (1234 / 100) (str ''wireless mouse'') = - (1234 / 100)"
    by (simp add: amount_ynab_def REFUND_WORDS_def run_strings)
  from row refund mouse show ?thesis by blast
qed

lemma sample_parses:
  "parse_date frag (row_get (sample_row ''2025-12-10'' ''12.34'' ''refund issued'')
      (date_col sample_cols) (Some [])) = Some (str ''2025-12-10'')"
  "parse_amount frag (row_get (sample_row ''2025-12-10'' ''12.34'' ''refund issued'')
      (amount_col sample_cols) (Some [])) = Some (1234 / 100)"
  by (simp_all add: parse_date_def parse_amount_def row_get_def sample_row_def sample_cols_def
        DATE_FORMATS_def run_lib)

theorem process_row_sign_witness:
  "\<exists>r. process_row frag sample_cols (sample_row ''2025-12-10'' ''12.34'' ''refund issued'')
          = Inr (Some r)
     \<and> Amount r = 1234 / 100"
proof -
  have ne: "str ''2025-12-10'' \<noteq> []" by (simp add: str_def)
  have noerr: "process_row frag sample_cols (sample_row ''2025-12-10'' ''12.34'' ''refund issued'')
      \<noteq> Inl AttributeError"
    by (simp add: process_row_def order_id_of_def synth_order_id_def truthy_def sample_cols_def
          sample_parses [unfolded sample_cols_def, simplified] Let_def)
  have memo: "list_ex (\<lambda>w. sublist w (lower frag (take 500 (strip frag (or_empty
      (col_get (sample_row ''2025-12-10'' ''12.34'' ''refund issued'') (memo_col sample_cols)))))))
     REFUND_WORDS"
    by (simp add: col_get_def row_get_def sample_row_def sample_cols_def REFUND_WORDS_def
          run_strings)
  from process_row_sign [OF sample_parses(1) ne sample_parses(2)] noerr memo
  show ?thesis by auto
qed

section \<open>Properties of the deduplicator\<close>

lemma dedup_loop_keys:
  "set (map dedup_key (dedup_loop seen rs)) = dedup_key ` set rs - seen"
  by (induction rs arbitrary: seen) auto






section \<open>Properties of the ledger matcher\<close>

lemma load_loop_fold: "load_loop L rows idx = fold add_entry (entries L rows) idx"
  by (induction rows arbitrary: idx) (auto simp: entries_def List.map_filter_simps split: option.splits)

lemma fold_add_entry_by_amount:
  "snd (fold add_entry es (lk, ba)) amt =
     (let new = map (\<lambda>(d, m, cat). (d, cat)) (filter (\<lambda>(d, m, cat). m = amt) es)
      in if new = [] then ba amt
         else Some ((case ba amt of None \<Rightarrow> [] | Some l \<Rightarrow> l) @ new))"
proof (induction es arbitrary: lk ba)
  case Nil
  then show ?case by simp
next
  case (Cons e es)
  obtain d m cat where e: "e = (d, m, cat)" by (cases e) auto
  show ?case
    unfolding e by (simp add: Cons.IH Let_def split: option.splits)
qed

lemma fold_add_entry_lookup_dom:
  "fst (fold add_entry es (lk, ba)) (d, m) = Some cat \<Longrightarrow>
     lk (d, m) = Some cat \<or> (d, m, cat) \<in> set es"
proof (induction es arbitrary: lk ba)
  case Nil
  then show ?case by simp
next
  case (Cons e es)
  obtain d' m' cat' where e: "e = (d', m', cat')" by (cases e) auto
  from Cons.prems have "fst (fold add_entry es (lk((d', m') \<mapsto> cat'),
      ba(m' \<mapsto> (case ba m' of None \<Rightarrow> [] | Some l \<Rightarrow> l) @ [(d', cat')]))) (d, m) = Some cat"
    by (simp add: e)
  from Cons.IH [OF this] show ?case
    by (auto simp: e split: if_splits)
qed

lemma set_map_filter_iff: "y \<in> set (List.map_filter f xs) \<longleftrightarrow> (\<exists>x \<in> set xs. f x = Some y)"
  by (induction xs) (auto split: option.splits)

lemma csv_entry_nonpositive: "csv_entry L row = Some (d, m, cat) \<Longrightarrow> m \<le> 0 \<and> cat \<noteq> []"
  by (auto simp: csv_entry_def outflow_milliunits_def Let_def split: option.splits if_splits)

lemma entries_nonpositive: "(d, m, cat) \<in> set (entries L rows) \<Longrightarrow> m \<le> 0 \<and> cat \<noteq> []"
  by (auto simp: entries_def set_map_filter_iff dest: csv_entry_nonpositive)

lemma load_by_amount:
  "snd (load_csv_lookup L rows) amt =
     (if contributions L rows amt = [] then None else Some (contributions L rows amt))"
  by (simp add: load_csv_lookup_def load_loop_fold fold_add_entry_by_amount contributions_def Let_def)

lemma load_lookup_entry:
  "fst (load_csv_lookup L rows) (d, m) = Some cat \<Longrightarrow> (d, m, cat) \<in> set (entries L rows)"
  using fold_add_entry_lookup_dom [of "entries L rows" Map.empty Map.empty d m cat]
  by (simp add: load_csv_lookup_def load_loop_fold)


lemma try_offsets_none:
  "(\<And>e. lk (e, amt) = None) \<Longrightarrow> try_offsets lk x amt ds = None"
  by (induction ds) auto


lemma positive_not_indexed:
  assumes load: "load_csv_lookup L rows = (csv_lookup, csv_by_amount)" and pos: "0 < amt"
  shows "csv_lookup (e, amt) = None" and "csv_by_amount amt = None"
proof -
  show "csv_lookup (e, amt) = None"
  proof (cases "csv_lookup (e, amt)")
    case None
    then show ?thesis .
  next
    case (Some cat)
    with load have "fst (load_csv_lookup L rows) (e, amt) = Some cat" by simp
    from entries_nonpositive [OF load_lookup_entry [OF this]] pos show ?thesis by simp
  qed
  have "contributions L rows amt = []"
    using pos by (auto simp: contributions_def filter_empty_conv dest: entries_nonpositive)
  with load_by_amount [of L rows amt] load show "csv_by_amount amt = None" by simp
qed

lemmas run_entry = csv_entry_def row_get_def ready_row_def YMD_def truthy_def outflow_milliunits_def
  py_round_def run_lib

lemmas run_dates = ymd_def days_before_year_def days_before_month_def is_leap_def

text \<open>
  C9. Every key of the primary lookup and every key of the amount index built by
  \<open>load_csv_lookup\<close> has milliunits at most 0. So for a ledger transaction with a positive
  amount the exact lookup, the date tolerance step and the amount-only fallback all find
  nothing, and the transaction is never matched.
\<close>

theorem load_csv_lookup_nonpositive:
  assumes load: "load_csv_lookup L rows = (csv_lookup, csv_by_amount)"
  shows "(\<forall>d m. (d, m) \<in> dom csv_lookup \<longrightarrow> m \<le> 0)
       \<and> (\<forall>m \<in> dom csv_by_amount. m \<le> 0)
       \<and> (\<forall>tx d amt. tx_amount tx = Some amt \<longrightarrow> 0 < amt \<longrightarrow>
            exact_lookup L csv_lookup d amt = None
            \<and> tolerance_step L csv_lookup d amt None = None
            \<and> amount_fallback csv_by_amount amt None = None
            \<and> (\<forall>cat. match_tx L csv_lookup csv_by_amount tx \<noteq> Matched cat))"
proof -
  have keys: "m \<le> 0" if "(d, m) \<in> dom csv_lookup" for d m
  proof (rule ccontr)
    assume "\<not> m \<le> 0"
    then have "csv_lookup (d, m) = None" using positive_not_indexed(1) [OF load] by simp
    with that show False by auto
  qed
  have amounts: "m \<le> 0" if "m \<in> dom csv_by_amount" for m
  proof (rule ccontr)
    assume "\<not> m \<le> 0"
    then have "csv_by_amount m = None" using positive_not_indexed(2) [OF load] by simp
    with that show False by auto
  qed
  have refund: "exact_lookup L csv_lookup d amt = None
            \<and> tolerance_step L csv_lookup d amt None = None
            \<and> amount_fallback csv_by_amount amt None = None
            \<and> (\<forall>cat. match_tx L csv_lookup csv_by_amount tx \<noteq> Matched cat)"
    if amt: "tx_amount tx = Some amt" and pos: "0 < amt" for tx d amt
  proof -
    have none: "\<And>e. csv_lookup (e, amt) = None" and by_none: "csv_by_amount amt = None"
      using positive_not_indexed [OF load pos] by auto
    have exact: "exact_lookup L csv_lookup d' amt = None" for d'
      by (simp add: exact_lookup_def none split: option.splits)
    have tol: "tolerance_step L csv_lookup d' amt None = None" for d'
      by (simp add: tolerance_step_def truthy_def try_offsets_none [of csv_lookup amt, OF none]
            split: option.splits)
    have fb: "amount_fallback csv_by_amount amt None = None"
      by (simp add: amount_fallback_def by_none)
    have "match_tx L csv_lookup csv_by_amount tx \<noteq> Matched cat" for cat
      using amt by (simp add: match_tx_def exact tol fb truthy_def split: option.splits)
    with exact tol fb show ?thesis by blast
  qed
  from keys amounts refund show ?thesis by blast
qed

lemma ambiguous_entries:
  "entries frag ambiguous_rows =
     [(ymd 2025 12 1, - 1999, str ''Groceries''), (ymd 2025 12 20, - 1999, str ''Wardrobe'')]"
  by (simp add: entries_def ambiguous_rows_def run_entry)

lemma ambiguous_lookup:
  "fst (load_csv_lookup frag ambiguous_rows) =
     [(ymd 2025 12 1, - 1999) \<mapsto> str ''Groceries'', (ymd 2025 12 20, - 1999) \<mapsto> str ''Wardrobe'']"
  by (simp add: load_csv_lookup_def load_loop_fold ambiguous_entries)

lemma refund_entries:
  "entries frag refund_rows = [(ymd 2025 12 10, - 12340, str ''Wardrobe'')]"
  by (simp add: entries_def refund_rows_def run_entry)

lemma lamp_entries:
  "entries frag lamp_rows = [(ymd 2025 12 10, - 4500, str ''Home'')]"
  by (simp add: entries_def lamp_rows_def run_entry)

lemma lamp_lookup:
  "fst (load_csv_lookup frag lamp_rows) = [(ymd 2025 12 10, - 4500) \<mapsto> str ''Home'']"
  by (simp add: load_csv_lookup_def load_loop_fold lamp_entries)

theorem load_csv_lookup_nonpositive_witness:
  "(ymd 2025 12 10, - 12340) \<in> dom (fst (load_csv_lookup frag refund_rows))
   \<and> - 12340 \<in> dom (snd (load_csv_lookup frag refund_rows))
   \<and> tx_amount (sample_tx (DateObj (ymd 2025 12 10)) 12340) = Some 12340 \<and> (0::int) < 12340
   \<and> match_tx frag (fst (load_csv_lookup frag refund_rows)) (snd (load_csv_lookup frag refund_rows))
        (sample_tx (DateObj (ymd 2025 12 10)) 12340) \<noteq> Matched (str ''Wardrobe'')"
proof -
  have k: "(ymd 2025 12 10, - 12340) \<in> dom (fst (load_csv_lookup frag refund_rows))"
    by (simp add: load_csv_lookup_def load_loop_fold refund_entries)
  have a: "- 12340 \<in> dom (snd (load_csv_lookup frag refund_rows))"
    by (simp add: load_csv_lookup_def load_loop_fold refund_entries)
  have amt: "tx_amount (sample_tx (DateObj (ymd 2025 12 10)) 12340) = Some 12340"
    by (simp add: sample_tx_def)
  from load_csv_lookup_nonpositive [OF prod.collapse [symmetric], of frag refund_rows] amt
  have "match_tx frag (fst (load_csv_lookup frag refund_rows)) (snd (load_csv_lookup frag refund_rows))
        (sample_tx (DateObj (ymd 2025 12 10)) 12340) \<noteq> Matched (str ''Wardrobe'')"
    by simp
  with k a amt show ?thesis by simp
qed

text \<open>
  C4. Let the indexes be those of \<open>load_csv_lookup\<close>, and let a ledger transaction with a
  date and an amount have no exact match and no date tolerance match. Then the amount
  index holds for its amount exactly the entries that the CSV rows contributed for that
  amount, and the transaction is matched (by the amount-only fallback) exactly when there
  is one such entry; with no entry, or with two or more, it is recorded as unmatched.
\<close>

theorem amount_only_fallback:
  assumes load: "load_csv_lookup L rows = (csv_lookup, csv_by_amount)"
    and d: "tx_date tx = Some d" and amt: "tx_amount tx = Some amt"
    and miss: "\<not> truthy (tolerance_step L csv_lookup d amt (exact_lookup L csv_lookup d amt))"
  shows "csv_by_amount amt =
           (if contributions L rows amt = [] then None else Some (contributions L rows amt))
       \<and> match_tx L csv_lookup csv_by_amount tx =
           (case contributions L rows amt of
              [(d', cat)] \<Rightarrow> Matched cat
            | _ \<Rightarrow> NoMatch (date_str_of L d) amt (take 80 (or_empty (tx_memo tx))))"
proof -
  have idx: "csv_by_amount amt =
           (if contributions L rows amt = [] then None else Some (contributions L rows amt))"
    using load_by_amount [of L rows amt] load by simp
  have nonempty: "cat \<noteq> []" if "(d', cat) \<in> set (contributions L rows amt)" for d' cat
    using that by (auto simp: contributions_def dest: entries_nonpositive)
  let ?t = "tolerance_step L csv_lookup d amt (exact_lookup L csv_lookup d amt)"
  have res: "match_tx L csv_lookup csv_by_amount tx =
           (case contributions L rows amt of
              [(d', cat)] \<Rightarrow> Matched cat
            | _ \<Rightarrow> NoMatch (date_str_of L d) amt (take 80 (or_empty (tx_memo tx))))"
  proof (cases "contributions L rows amt")
    case Nil
    with idx miss d amt show ?thesis
      by (simp add: match_tx_def amount_fallback_def Let_def)
  next
    case (Cons p ps)
    obtain d' cat where p: "p = (d', cat)" by (cases p) auto
    show ?thesis
    proof (cases ps)
      case Nil
      from nonempty [of d' cat] Cons p Nil have "cat \<noteq> []" by simp
      with idx miss d amt Cons p Nil show ?thesis
        by (simp add: match_tx_def amount_fallback_def Let_def truthy_def or_empty_def)
    next
      case (Cons q qs)
      with idx miss d amt \<open>contributions L rows amt = p # ps\<close> p show ?thesis
        by (simp add: match_tx_def amount_fallback_def Let_def)
    qed
  qed
  from idx res show ?thesis by blast
qed

theorem amount_only_fallback_witness:
  "contributions frag ambiguous_rows (- 1999) =
     [(ymd 2025 12 1, str ''Groceries''), (ymd 2025 12 20, str ''Wardrobe'')]
   \<and> match_tx frag (fst (load_csv_lookup frag ambiguous_rows)) (snd (load_csv_lookup frag ambiguous_rows))
        (sample_tx (DateObj (ymd 2025 12 10)) (- 1999))
      = NoMatch (str ''2025-12-10'') (- 1999) (str ''Amazon'')"
proof -
  have c: "contributions frag ambiguous_rows (- 1999) =
     [(ymd 2025 12 1, str ''Groceries''), (ymd 2025 12 20, str ''Wardrobe'')]"
    by (simp add: contributions_def ambiguous_entries)
  have d: "tx_date (sample_tx (DateObj (ymd 2025 12 10)) (- 1999)) = Some (DateObj (ymd 2025 12 10))"
    and amt: "tx_amount (sample_tx (DateObj (ymd 2025 12 10)) (- 1999)) = Some (- 1999)"
    and memo: "tx_memo (sample_tx (DateObj (ymd 2025 12 10)) (- 1999)) = Some (str ''Amazon'')"
    by (simp_all add: sample_tx_def)
  have miss: "\<not> truthy (tolerance_step frag (fst (load_csv_lookup frag ambiguous_rows))
      (DateObj (ymd 2025 12 10)) (- 1999)
      (exact_lookup frag (fst (load_csv_lookup frag ambiguous_rows)) (DateObj (ymd 2025 12 10)) (- 1999)))"
    by (simp add: ambiguous_lookup tolerance_step_def exact_lookup_def key_date_def parsed_date_def
          truthy_def OFFSETS_def ymd_def days_before_year_def days_before_month_def is_leap_def)
  have ds: "date_str_of frag (DateObj (ymd 2025 12 10)) = str ''2025-12-10''"
    by (simp add: date_str_of_def run_lib)
  from amount_only_fallback [OF prod.collapse [symmetric] d amt miss] c memo ds
  show ?thesis by (simp add: or_empty_def str_def)
qed






text \<open>
  The tolerance step is not the last one: a transaction dated 2025-12-15 that it leaves
  unmatched is still matched to the entry of 2025-12-10 by the amount-only fallback when
  that entry is the only one for the amount.
\<close>

lemma far_transaction_falls_back:
  "tolerance_step frag (fst (load_csv_lookup frag lamp_rows))
     (DateStr (str ''2025-12-15'')) (- 4500) None = None
   \<and> match_tx frag (fst (load_csv_lookup frag lamp_rows)) (snd (load_csv_lookup frag lamp_rows))
        (sample_tx (DateStr (str ''2025-12-15'')) (- 4500)) = Matched (str ''Home'')"
proof -
  have p: "parsed_date frag (DateStr (str ''2025-12-15'')) = Some (ymd 2025 12 15)"
    by (simp add: parsed_date_def YMD_def run_lib)
  have k: "key_date frag (DateStr (str ''2025-12-15'')) = Some (ymd 2025 12 15)"
    by (simp add: key_date_def YMD_def run_lib)
  have t: "tolerance_step frag (fst (load_csv_lookup frag lamp_rows))
     (DateStr (str ''2025-12-15'')) (- 4500) None = None"
    by (simp add: tolerance_step_def p truthy_def OFFSETS_def lamp_lookup run_dates)
  have e: "exact_lookup frag (fst (load_csv_lookup frag lamp_rows))
     (DateStr (str ''2025-12-15'')) (- 4500) = None"
    by (simp add: exact_lookup_def k lamp_lookup run_dates)
  have ne: "str ''Home'' \<noteq> []" by (simp add: str_def)
  have b: "snd (load_csv_lookup frag lamp_rows) (- 4500) = Some [(ymd 2025 12 10, str ''Home'')]"
    by (simp add: load_by_amount contributions_def lamp_entries)
  have "match_tx frag (fst (load_csv_lookup frag lamp_rows)) (snd (load_csv_lookup frag lamp_rows))
        (sample_tx (DateStr (str ''2025-12-15'')) (- 4500)) = Matched (str ''Home'')"
    by (simp add: match_tx_def sample_tx_def e t b amount_fallback_def truthy_def or_empty_def ne)
  with t show ?thesis by simp
qed

section \<open>Properties of the AI classification\<close>

lemma int_keys_bad_key:
  "\<not> list_all (\<lambda>(k, v). int_of L k \<noteq> None) its \<Longrightarrow> int_keys L its m = Inl ValueError"
  by (induction its arbitrary: m) (auto split: option.splits)

lemma assign_batch_default:
  "assign_batch L categories (default_map n) j rs =
     Inr (map (\<lambda>r. r\<lparr>Category := resolve_category L (Some DEFAULT_CATEGORY) categories\<rparr>) rs)"
  by (induction rs arbitrary: j) (auto simp: default_map_def as_response_def)

lemma categorize_all_unfold:
  "deduped \<noteq> [] \<Longrightarrow>
   categorize_all L env categories n deduped =
     (case assign_batch L categories
             (categorize_with_ai L env n (map Memo (take BATCH_SIZE deduped)) categories) 0
             (take BATCH_SIZE deduped) of
        Inl e \<Rightarrow> Inl e
      | Inr batch' \<Rightarrow>
          (case categorize_all L env categories (Suc n) (drop BATCH_SIZE deduped) of
             Inl e \<Rightarrow> Inl e
           | Inr rest \<Rightarrow> Inr (batch' @ rest)))"
  by (subst categorize_all.simps) (simp add: Let_def)

text \<open>
  C6. \<open>categorize_with_ai\<close> has no exceptional result: it always returns a mapping.
  When the API key is missing or empty, or when the body of the \<open>try\<close> fails, the
  mapping assigns \<open>Uncategorized\<close> to every index from 0 to \<open>len(items) - 1\<close> and to no
  other. The body of the \<open>try\<close> fails when the request raises, when the response has no
  content block or its first block no text, when the text (stripped, a leading code fence
  removed) is not JSON, when the JSON value is no object, and when a key of the object is
  no integer. A batch that got this mapping has all its rows resolved from
  \<open>Uncategorized\<close>, and the batch loop goes on with the next batch.
\<close>

theorem categorize_with_ai_failure:
  "(\<not> truthy (api_key env) \<longrightarrow>
      categorize_with_ai L env n items categories = default_map (length items))
   \<and> (parse_response L (messages_create env n categories (map (take 300) items)) = Inl e \<longrightarrow>
      categorize_with_ai L env n items categories = default_map (length items))
   \<and> parse_response L Raises = Inl ApiException
   \<and> parse_response L (Content []) = Inl IndexError
   \<and> parse_response L (Content (None # blocks)) = Inl AttributeError
   \<and> (json_loads L (response_body L text) = None \<longrightarrow>
        parse_response L (Content (Some text # blocks)) = Inl JSONDecodeError)
   \<and> (json_loads L (response_body L text) = Some v \<longrightarrow> (\<forall>its. v \<noteq> JObject its) \<longrightarrow>
        parse_response L (Content (Some text # blocks)) = Inl AttributeError)
   \<and> (json_loads L (response_body L text) = Some (JObject its) \<longrightarrow>
        \<not> list_all (\<lambda>(k, v). int_of L k \<noteq> None) its \<longrightarrow>
        parse_response L (Content (Some text # blocks)) = Inl ValueError)
   \<and> default_map (length items) i =
        (if 0 \<le> i \<and> i < int (length items) then Some (JString (str ''Uncategorized'')) else None)
   \<and> (deduped \<noteq> [] \<longrightarrow>
        categorize_with_ai L env n (map Memo (take BATCH_SIZE deduped)) categories
          = default_map (length (map Memo (take BATCH_SIZE deduped))) \<longrightarrow>
        categorize_all L env categories n deduped =
          (case categorize_all L env categories (Suc n) (drop BATCH_SIZE deduped) of
             Inl e \<Rightarrow> Inl e
           | Inr rest \<Rightarrow>
               Inr (map (\<lambda>r. r\<lparr>Category := resolve_category L (Some DEFAULT_CATEGORY) categories\<rparr>)
                      (take BATCH_SIZE deduped) @ rest)))"
proof -
  have nokey: "categorize_with_ai L env n items categories = default_map (length items)"
    if "\<not> truthy (api_key env)"
    using that by (simp add: categorize_with_ai_def)
  have failed: "categorize_with_ai L env n items categories = default_map (length items)"
    if "parse_response L (messages_create env n categories (map (take 300) items)) = Inl e"
    using that by (simp add: categorize_with_ai_def)
  have request: "parse_response L Raises = Inl ApiException"
    and empty: "parse_response L (Content []) = Inl IndexError"
    and notext: "parse_response L (Content (None # blocks)) = Inl AttributeError"
    by (simp_all add: parse_response_def)
  have nojson: "parse_response L (Content (Some text # blocks)) = Inl JSONDecodeError"
    if "json_loads L (response_body L text) = None"
    using that by (simp add: parse_response_def)
  have noobject: "parse_response L (Content (Some text # blocks)) = Inl AttributeError"
    if "json_loads L (response_body L text) = Some v" "\<forall>its. v \<noteq> JObject its"
    using that by (cases v) (simp_all add: parse_response_def)
  have badkey: "parse_response L (Content (Some text # blocks)) = Inl ValueError"
    if "json_loads L (response_body L text) = Some (JObject its)"
      "\<not> list_all (\<lambda>(k, v). int_of L k \<noteq> None) its"
    using that by (simp add: parse_response_def int_keys_bad_key)
  have dflt: "default_map (length items) i =
        (if 0 \<le> i \<and> i < int (length items) then Some (JString (str ''Uncategorized'')) else None)"
    by (simp add: default_map_def DEFAULT_CATEGORY_def)
  have batch: "categorize_all L env categories n deduped =
          (case categorize_all L env categories (Suc n) (drop BATCH_SIZE deduped) of
             Inl e \<Rightarrow> Inl e
           | Inr rest \<Rightarrow>
               Inr (map (\<lambda>r. r\<lparr>Category := resolve_category L (Some DEFAULT_CATEGORY) categories\<rparr>)
                      (take BATCH_SIZE deduped) @ rest))"
    if "deduped \<noteq> []"
      "categorize_with_ai L env n (map Memo (take BATCH_SIZE deduped)) categories
          = default_map (length (map Memo (take BATCH_SIZE deduped)))"
    using that by (simp add: categorize_all_unfold assign_batch_default)
  from nokey failed request empty notext nojson noobject badkey dflt batch
  show ?thesis by blast
qed

theorem categorize_with_ai_failure_witness:
  "\<not> truthy (api_key offline_env)
   \<and> categorize_with_ai frag offline_env 0 [str ''wireless mouse'', str ''desk lamp''] [str ''Home'']
       = default_map 2
   \<and> parse_response frag (messages_create prose_env 0 [str ''Home''] (map (take 300) [str ''wireless mouse'']))
       = Inl JSONDecodeError
   \<and> categorize_with_ai frag prose_env 0 [str ''wireless mouse''] [str ''Home''] 0
       = Some (JString (str ''Uncategorized''))"
proof -
  have k: "\<not> truthy (api_key offline_env)" by (simp add: truthy_def offline_env_def)
  have p: "parse_response frag (messages_create prose_env 0 [str ''Home''] (map (take 300) [str ''wireless mouse'']))
       = Inl JSONDecodeError"
    by (simp add: parse_response_def prose_env_def frag_simps)
  note inst = categorize_with_ai_failure [where L = frag and n = 0 and categories = "[str ''Home'']"]
  from inst [where env = offline_env and items = "[str ''wireless mouse'', str ''desk lamp'']",
      THEN conjunct1] k
  have "categorize_with_ai frag offline_env 0 [str ''wireless mouse'', str ''desk lamp''] [str ''Home'']
       = default_map (length [str ''wireless mouse'', str ''desk lamp''])"
    by (rule mp)
  then have a: "categorize_with_ai frag offline_env 0 [str ''wireless mouse'', str ''desk lamp''] [str ''Home'']
       = default_map 2"
    by (simp add: numeral_2_eq_2)
  from inst [where env = prose_env and items = "[str ''wireless mouse'']" and e = JSONDecodeError,
      THEN conjunct2, THEN conjunct1] p
  have "categorize_with_ai frag prose_env 0 [str ''wireless mouse''] [str ''Home'']
       = default_map (length [str ''wireless mouse''])"
    by (rule mp)
  then have b: "categorize_with_ai frag prose_env 0 [str ''wireless mouse''] [str ''Home''] 0
       = Some (JString (str ''Uncategorized''))"
    by (simp add: default_map_def DEFAULT_CATEGORY_def)
  from k a p b show ?thesis by simp
qed

text \<open>
  A response that parses is no failure, fenced or not: the mapping of its object is
  returned as it is.
\<close>

lemma categorize_with_ai_success:
  assumes "truthy (api_key env)"
    and "parse_response L (messages_create env n categories (map (take 300) items)) = Inr result"
  shows "categorize_with_ai L env n items categories = result"
  using assms by (simp add: categorize_with_ai_def)

section \<open>Properties of the pagination loops\<close>

lemma later_cases:
  "later L t latest =
     (case (case tx_date t of None \<Rightarrow> None | Some d \<Rightarrow> parsed_date L d) of
        None \<Rightarrow> latest
      | Some x \<Rightarrow> (case latest of None \<Rightarrow> Some x | Some l \<Rightarrow> Some (max l x)))"
  by (auto simp: later_def split: option.splits)

lemma fold_later_Some:
  "fold (later L) txs (Some l) = Some (Max (insert l (set (page_dates L txs))))"
proof (induction txs arbitrary: l)
  case Nil
  then show ?case by (simp add: page_dates_def)
next
  case (Cons t txs)
  show ?case
  proof (cases "case tx_date t of None \<Rightarrow> None | Some d \<Rightarrow> parsed_date L d")
    case None
    then have "later L t (Some l) = Some l" by (simp add: later_cases)
    with None show ?thesis by (simp add: Cons.IH page_dates_def)
  next
    case (Some x)
    then have st: "later L t (Some l) = Some (max l x)" by (simp add: later_cases)
    have "Max (insert (max l x) (set (page_dates L txs))) =
        Max (insert l (insert x (set (page_dates L txs))))"
      by (cases "set (page_dates L txs) = {}") (simp_all add: max.assoc)
    with Some st show ?thesis by (simp add: Cons.IH page_dates_def)
  qed
qed

lemma latest_date_Max:
  "latest_date L txs =
     (if page_dates L txs = [] then None else Some (Max (set (page_dates L txs))))"
proof (induction txs)
  case Nil
  then show ?case by (simp add: latest_date_def page_dates_def)
next
  case (Cons t txs)
  show ?case
  proof (cases "case tx_date t of None \<Rightarrow> None | Some d \<Rightarrow> parsed_date L d")
    case None
    then have "later L t None = None" by (simp add: later_cases)
    with None Cons show ?thesis by (simp add: latest_date_def page_dates_def)
  next
    case (Some x)
    then have "later L t None = Some x" by (simp add: later_cases)
    with Some show ?thesis by (simp add: latest_date_def fold_later_Some page_dates_def)
  qed
qed


lemma next_since_cleanup_cases:
  "next_since_cleanup L txs =
     (if length txs < 500 \<or> page_dates L txs = [] \<or> END_DATE \<le> Max (set (page_dates L txs)) then None
      else Some (Max (set (page_dates L txs)) + 1))"
  by (auto simp: next_since_cleanup_def latest_date_Max)

lemma page_dates_honoured:
  assumes "honours_since L server" "server since = Some txs" "x \<in> set (page_dates L txs)"
  shows "since \<le> x"
proof -
  from assms(3) obtain t d where "t \<in> set txs" "tx_date t = Some d" "parsed_date L d = Some x"
    by (auto simp: page_dates_def set_map_filter_iff split: option.splits)
  with assms(1,2) show ?thesis unfolding honours_since_def by blast
qed

lemma Max_page_dates_honoured:
  assumes "honours_since L server" "server since = Some txs" "page_dates L txs \<noteq> []"
  shows "since \<le> Max (set (page_dates L txs))"
proof -
  from assms(3) have "Max (set (page_dates L txs)) \<in> set (page_dates L txs)"
    by (intro Max_in) auto
  with assms(1,2) show ?thesis by (rule page_dates_honoured)
qed


lemma advances_cleanup_increases:
  assumes "honours_since L server" "advances_cleanup L server since s'"
  shows "since < s' \<and> s' \<le> END_DATE"
proof -
  from assms(2) obtain txs where txs: "server since = Some txs" and n: "next_since_cleanup L txs = Some s'"
    by (auto simp: advances_cleanup_def split: option.splits)
  from n have ne: "page_dates L txs \<noteq> []" and s': "s' = Max (set (page_dates L txs)) + 1"
    and lt: "\<not> END_DATE \<le> Max (set (page_dates L txs))"
    by (simp_all add: next_since_cleanup_cases split: if_splits)
  from Max_page_dates_honoured [OF assms(1) txs ne] s' lt show ?thesis by simp
qed



lemma rounds_advance:
  "apply_round L server (since, all_txs) = Again (s', all_txs') \<Longrightarrow> advances L server since s'"
  "import_round L server (since, existing) = Again (s', existing') \<Longrightarrow> advances L server since s'"
  "cleanup_round L server (since, all_txs) = Again (s', all_txs') \<Longrightarrow> advances_cleanup L server since s'"
  by (auto simp: apply_round_def import_round_def cleanup_round_def advances_def advances_cleanup_def
        Let_def split: option.splits)


text \<open>
  With the cutoff the loop of the cleanup script ends: the cursor rises from
  \<open>START_DATE\<close> and a round at or after \<open>END_DATE\<close> is the last.
\<close>

lemma cleanup_loop_ends:
  assumes "honours_since L server"
  shows "nat (END_DATE - since) < fuel \<Longrightarrow>
    \<exists>r. run_loop fuel (cleanup_round L server) (since, all_txs) = Some r"
proof (induction fuel arbitrary: since all_txs)
  case 0
  then show ?case by simp
next
  case (Suc fuel)
  show ?case
  proof (cases "cleanup_round L server (since, all_txs)")
    case (Done r)
    then show ?thesis by simp
  next
    case (Again st)
    obtain s' all' where st: "st = (s', all')" by (cases st) auto
    from Again st have "advances_cleanup L server since s'" by (simp add: rounds_advance(3))
    from advances_cleanup_increases [OF assms this] Suc.prems
    have "nat (END_DATE - s') < fuel" by linarith
    from Suc.IH [OF this] Again st show ?thesis by simp
  qed
qed

lemma cleanup_fetch_ends:
  "honours_since L server \<Longrightarrow> \<exists>r. cleanup_fetch 62 L server = Some r"
  unfolding cleanup_fetch_def
  by (rule cleanup_loop_ends)
     (simp_all add: START_DATE_def END_DATE_def ymd_def days_before_year_def days_before_month_def is_leap_def)






section \<open>Properties of the importer\<close>

lemma group_transaction_Some:
  assumes "group_transaction L cim ex tol g = Some t"
  shows "import_id t = import_id_of L (new_amount t) (new_date t)
       \<and> new_amount t = sum_list (map (\<lambda>r. fst (snd r)) g)
       \<and> new_amount t \<noteq> 0
       \<and> (\<exists>a row rest. g = (new_date t, a, row) # rest)"
  using assms
  by (auto simp: group_transaction_def Let_def split: list.splits if_splits prod.splits)

lemma transactions_to_import_set:
  "t \<in> set (transactions_to_import L cim ex tol groups) \<longleftrightarrow>
     (\<exists>key g. (key, g) \<in> set groups \<and> group_transaction L cim ex tol g = Some t)"
  by (force simp: transactions_to_import_def set_map_filter_iff)

text \<open>
  C10. Every transaction that the importer builds, single or split, has the import id
  \<open>YNAB:\<close> total amount \<open>:\<close> date \<open>:1\<close>, where the total is the sum of the amounts of its
  group and the date that of the first row of the group. So two transactions of one batch
  with the same total and the same date have the same import id, whatever their rows,
  categories and splits.
\<close>

theorem import_id_total_and_date:
  "(group_transaction L cim ex tol g = Some t \<longrightarrow>
      import_id t = str ''YNAB:'' @ str_int (new_amount t) @ str '':'' @ isoformat L (new_date t) @ str '':1''
      \<and> new_amount t = sum_list (map (\<lambda>r. fst (snd r)) g)
      \<and> (\<exists>a row rest. g = (new_date t, a, row) # rest))
   \<and> (t \<in> set (transactions_to_import L cim ex tol groups) \<longrightarrow>
      import_id t = str ''YNAB:'' @ str_int (new_amount t) @ str '':'' @ isoformat L (new_date t) @ str '':1'')
   \<and> (t1 \<in> set (transactions_to_import L cim ex tol groups) \<longrightarrow>
      t2 \<in> set (transactions_to_import L cim ex tol groups) \<longrightarrow>
      new_amount t1 = new_amount t2 \<longrightarrow> new_date t1 = new_date t2 \<longrightarrow>
      import_id t1 = import_id t2)"
proof -
  have one: "import_id t = str ''YNAB:'' @ str_int (new_amount t) @ str '':'' @ isoformat L (new_date t) @ str '':1''
      \<and> new_amount t = sum_list (map (\<lambda>r. fst (snd r)) g)
      \<and> (\<exists>a row rest. g = (new_date t, a, row) # rest)"
    if "group_transaction L cim ex tol g = Some t"
    using group_transaction_Some [OF that] by (simp add: import_id_of_def)
  have id: "import_id t = import_id_of L (new_amount t) (new_date t)"
    if "t \<in> set (transactions_to_import L cim ex tol groups)" for t
    using that group_transaction_Some by (auto simp: transactions_to_import_set)
  have all: "import_id t = str ''YNAB:'' @ str_int (new_amount t) @ str '':'' @ isoformat L (new_date t) @ str '':1''"
    if "t \<in> set (transactions_to_import L cim ex tol groups)"
    using id [OF that] by (simp add: import_id_of_def)
  have same: "import_id t1 = import_id t2"
    if "t1 \<in> set (transactions_to_import L cim ex tol groups)"
      "t2 \<in> set (transactions_to_import L cim ex tol groups)"
      "new_amount t1 = new_amount t2" "new_date t1 = new_date t2"
    using id [OF that(1)] id [OF that(2)] that(3,4) by simp
  from one all same show ?thesis by blast
qed

lemmas run_import = import_row_def row_get_def ready_row_def outflow_milliunits_def py_round_def
  or_empty_def run_lib

lemmas order_row_defs = lamp_row_def bulb_row_def toy_row_def desk_row_def

lemma order_import_rows:
  "import_row frag lamp_row = Inr (Some (ymd 2025 12 10, - 10000, lamp_row, str ''A1''))"
  "import_row frag bulb_row = Inr (Some (ymd 2025 12 10, - 5000, bulb_row, str ''A1''))"
  "import_row frag toy_row = Inr (Some (ymd 2025 12 10, - 20000, toy_row, str ''A1''))"
  "import_row frag desk_row = Inr (Some (ymd 2025 12 10, - 35000, desk_row, str ''B2''))"
  by (simp_all add: order_row_defs run_import)

lemma order_raw_rows:
  "read_rows frag order_rows =
     Inr [(ymd 2025 12 10, - 10000, lamp_row, str ''A1''),
          (ymd 2025 12 10, - 5000, bulb_row, str ''A1''),
          (ymd 2025 12 10, - 20000, toy_row, str ''A1''),
          (ymd 2025 12 10, - 35000, desk_row, str ''B2'')]"
  by (simp add: order_rows_def order_import_rows)

lemma order_keys:
  "str ''A1'' \<noteq> []" "str ''B2'' \<noteq> []" "str ''A1'' \<noteq> str ''B2''" "str ''B2'' \<noteq> str ''A1''"
  by (simp_all add: str_def)

lemma order_groups:
  "group_rows frag
     [(ymd 2025 12 10, - 10000, lamp_row, str ''A1''),
      (ymd 2025 12 10, - 5000, bulb_row, str ''A1''),
      (ymd 2025 12 10, - 20000, toy_row, str ''A1''),
      (ymd 2025 12 10, - 35000, desk_row, str ''B2'')] =
     [(str ''A1'', [(ymd 2025 12 10, - 10000, lamp_row), (ymd 2025 12 10, - 5000, bulb_row),
                    (ymd 2025 12 10, - 20000, toy_row)]),
      (str ''B2'', [(ymd 2025 12 10, - 35000, desk_row)])]"
  by (simp add: group_rows_def group_key_def order_keys)

lemma order_categories:
  "category_for_row frag sample_ids lamp_row = Some (str ''c1'')"
  "category_for_row frag sample_ids bulb_row = Some (str ''c1'')"
  "category_for_row frag sample_ids toy_row = Some (str ''c2'')"
  "category_for_row frag sample_ids desk_row = Some (str ''c1'')"
  by (simp_all add: category_for_row_def sample_ids_def order_row_defs row_get_def ready_row_def
        run_strings)

lemma order_id_text: "import_id_of frag (- 35000) (ymd 2025 12 10) = str ''YNAB:-35000:2025-12-10:1''"
  by (simp add: import_id_of_def run_lib)

lemma order_cells:
  "strip frag (or_empty (row_get lamp_row (str ''Payee'') None)) = str ''Amazon.ca''"
  "strip frag (or_empty (row_get lamp_row (str ''Memo'') None)) = str ''lamp''"
  "strip frag (or_empty (row_get desk_row (str ''Payee'') None)) = str ''Amazon.ca''"
  "strip frag (or_empty (row_get desk_row (str ''Memo'') None)) = str ''desk''"
  "str ''Amazon.ca'' \<noteq> []" "str ''lamp'' \<noteq> []" "str ''desk'' \<noteq> []"
  "take 500 (str ''lamp'') = str ''lamp''" "take 500 (str ''desk'') = str ''desk''"
  "str ''c1'' \<noteq> str ''c2''" "str ''c2'' \<noteq> str ''c1''"
  by (simp_all add: order_row_defs row_get_def ready_row_def run_strings)

lemma order_split_group:
  "group_transaction frag sample_ids Map.empty 5
     [(ymd 2025 12 10, - 10000, lamp_row), (ymd 2025 12 10, - 5000, bulb_row),
      (ymd 2025 12 10, - 20000, toy_row)] = Some split_tx"
  by (simp add: group_transaction_def is_duplicate_def cat_amounts_of_def order_categories
        order_cells order_id_text split_tx_def Let_def)

lemma order_single_group:
  "group_transaction frag sample_ids Map.empty 5 [(ymd 2025 12 10, - 35000, desk_row)] = Some single_tx"
  by (simp add: group_transaction_def is_duplicate_def cat_amounts_of_def order_categories
        order_cells order_id_text single_tx_def Let_def)

lemma order_batch:
  "import_batch frag sample_ids Map.empty 5 order_rows = Inr [split_tx, single_tx]"
  by (simp add: import_batch_def order_raw_rows order_groups transactions_to_import_def
        order_split_group order_single_group)

theorem import_id_total_and_date_witness:
  "import_batch frag sample_ids Map.empty 5 order_rows = Inr [split_tx, single_tx]
   \<and> new_amount split_tx = new_amount single_tx \<and> new_date split_tx = new_date single_tx
   \<and> subtransactions split_tx \<noteq> subtransactions single_tx
   \<and> import_id split_tx = import_id single_tx"
proof -
  let ?groups = "[(str ''A1'', [(ymd 2025 12 10, - 10000, lamp_row), (ymd 2025 12 10, - 5000, bulb_row),
                    (ymd 2025 12 10, - 20000, toy_row)]),
      (str ''B2'', [(ymd 2025 12 10, - 35000, desk_row)])]"
  have txs: "transactions_to_import frag sample_ids Map.empty 5 ?groups = [split_tx, single_tx]"
    by (simp add: transactions_to_import_def order_split_group order_single_group)
  then have in1: "split_tx \<in> set (transactions_to_import frag sample_ids Map.empty 5 ?groups)"
    and in2: "single_tx \<in> set (transactions_to_import frag sample_ids Map.empty 5 ?groups)"
    by simp_all
  have amt: "new_amount split_tx = new_amount single_tx"
    and dt: "new_date split_tx = new_date single_tx"
    and sub: "subtransactions split_tx \<noteq> subtransactions single_tx"
    by (simp_all add: split_tx_def single_tx_def)
  from import_id_total_and_date [where L = frag and cim = sample_ids and ex = Map.empty and tol = 5
      and groups = ?groups and ?t1.0 = split_tx and ?t2.0 = single_tx] in1 in2 amt dt
  have "import_id split_tx = import_id single_tx" by blast
  with order_batch amt dt sub show ?thesis by blast
qed

section \<open>Properties of zero-amount rows\<close>

lemma parse_rows_member:
  "parse_rows L cols rows = Inr rows_out \<Longrightarrow> row \<in> set rows \<Longrightarrow>
     process_row L cols row = Inr (Some r) \<Longrightarrow> r \<in> set rows_out"
proof (induction rows arbitrary: rows_out)
  case Nil
  then show ?case by simp
next
  case (Cons x xs)
  then show ?case
    by (auto split: sum.splits option.splits)
qed

lemma dedupe_keeps_key:
  assumes "r \<in> set rows_out"
  shows "\<exists>r' \<in> set (dedupe rows_out). dedup_key r' = dedup_key r"
proof -
  from assms have "dedup_key r \<in> set (map dedup_key (dedup_loop {} rows_out))"
    unfolding dedup_loop_keys by simp
  then show ?thesis by (auto simp: dedupe_def)
qed

lemma assign_batch_keys:
  "assign_batch L categories cz j rs = Inr out \<Longrightarrow> map dedup_key out = map dedup_key rs"
proof (induction rs arbitrary: j out)
  case Nil
  then show ?case by simp
next
  case (Cons r rs)
  then show ?case
    by (auto simp: dedup_key_def split: sum.splits)
qed

lemma categorize_all_Nil: "categorize_all L env categories n [] = Inr []"
  by (simp add: categorize_all.simps)

lemma categorize_all_keys:
  "categorize_all L env categories n deduped = Inr out \<Longrightarrow>
     map dedup_key out = map dedup_key deduped"
proof (induction L env categories n deduped arbitrary: out rule: categorize_all.induct)
  case (1 L env categories n deduped)
  show ?case
  proof (cases "deduped = []")
    case True
    with "1.prems" show ?thesis by (simp add: categorize_all_Nil)
  next
    case False
    let ?batch = "take BATCH_SIZE deduped"
    let ?cz = "categorize_with_ai L env n (map Memo ?batch) categories"
    from "1.prems" False obtain b rest where
      b: "assign_batch L categories ?cz 0 ?batch = Inr b"
      and rest: "categorize_all L env categories (Suc n) (drop BATCH_SIZE deduped) = Inr rest"
      and out: "out = b @ rest"
      by (auto simp: categorize_all_unfold split: sum.splits)
    from "1.IH" [OF False refl refl b rest]
    have "map dedup_key rest = map dedup_key (drop BATCH_SIZE deduped)" .
    moreover from assign_batch_keys [OF b] have "map dedup_key b = map dedup_key ?batch" .
    ultimately have "map dedup_key out =
        map dedup_key ?batch @ map dedup_key (drop BATCH_SIZE deduped)"
      using out by simp
    also have "\<dots> = map dedup_key (?batch @ drop BATCH_SIZE deduped)"
      by (rule map_append [symmetric])
    finally show ?thesis by (simp only: append_take_drop_id)
  qed
qed

lemma normalizer_output_keys:
  assumes "normalizer_output L env no_ai categories cols rows = Inr out"
  shows "\<exists>rows_out. parse_rows L cols rows = Inr rows_out
           \<and> map dedup_key out = map dedup_key (dedupe rows_out)"
proof -
  from assms obtain rows_out where p: "parse_rows L cols rows = Inr rows_out"
    by (auto simp: normalizer_output_def split: sum.splits)
  show ?thesis
  proof (cases no_ai)
    case True
    with assms p have "out = map (\<lambda>r. r\<lparr>Category := DEFAULT_CATEGORY\<rparr>) (dedupe rows_out)"
      by (simp add: normalizer_output_def)
    then have "map dedup_key out = map dedup_key (dedupe rows_out)"
      by (simp add: dedup_key_def)
    with p show ?thesis by blast
  next
    case False
    with assms p have "categorize_all L env categories 0 (dedupe rows_out) = Inr out"
      by (simp add: normalizer_output_def)
    from categorize_all_keys [OF this] p show ?thesis by blast
  qed
qed

lemma outflow_milliunits_sign: "outflow_milliunits raw \<le> 0" "outflow_milliunits 0 = 0"
  by (simp_all add: outflow_milliunits_def py_round_def Let_def)

lemma import_row_Some:
  assumes "import_row L irow = Inr (Some (date_obj, amount, irow', order_id))"
  shows "amount < 0 \<and>
     (\<exists>cell raw. row_get irow (str ''Amount'') (Some (str ''0'')) = Some cell
        \<and> float_of L (remove_all (str '','') (strip L cell)) = Some raw
        \<and> amount = outflow_milliunits raw \<and> raw \<noteq> 0)"
proof -
  from assms obtain cell raw where
    c: "row_get irow (str ''Amount'') (Some (str ''0'')) = Some cell"
    and f: "float_of L (remove_all (str '','') (strip L cell)) = Some raw"
    and a: "amount = outflow_milliunits raw" and nz: "amount \<noteq> 0"
    by (auto simp: import_row_def Let_def split: option.splits if_splits)
  from a nz outflow_milliunits_sign(1) [of raw] have "amount < 0" by simp
  moreover from a nz have "raw \<noteq> 0" using outflow_milliunits_sign(2) by auto
  ultimately show ?thesis using c f a by blast
qed

lemma read_rows_member:
  "read_rows L irows = Inr raw_rows \<Longrightarrow> x \<in> set raw_rows \<Longrightarrow>
     \<exists>irow \<in> set irows. import_row L irow = Inr (Some x)"
proof (induction irows arbitrary: raw_rows)
  case Nil
  then show ?case by simp
next
  case (Cons r rs)
  then show ?case
    by (auto split: sum.splits option.splits)
qed

lemmas run_row = process_row_def parse_date_def parse_amount_def row_get_def col_get_def
  order_id_of_def synth_order_id_def truthy_def amount_ynab_def REFUND_WORDS_def PAYEE_def
  DATE_FORMATS_def sample_row_def sample_cols_def run_lib

lemma zero_row_parses:
  "parse_date frag (row_get zero_row (date_col sample_cols) (Some [])) = Some (str ''2025-12-10'')"
  "parse_amount frag (row_get zero_row (amount_col sample_cols) (Some [])) = Some 0"
  by (simp_all add: zero_row_def run_row)

lemma zero_row_record:
  "process_row frag sample_cols zero_row = Inr (Some (zero_record\<lparr>Category := []\<rparr>))"
  by (simp add: zero_row_def zero_record_def run_row)

lemma resolve_default_home:
  "resolve_category frag (Some DEFAULT_CATEGORY) [str ''Home''] = str ''Uncategorized''"
  by (simp add: resolve_category_def run_strings)

lemma offline_categorize_all:
  "\<not> truthy (api_key env) \<Longrightarrow>
   categorize_all L env categories n deduped =
     Inr (map (\<lambda>r. r\<lparr>Category := resolve_category L (Some DEFAULT_CATEGORY) categories\<rparr>) deduped)"
proof (induction L env categories n deduped rule: categorize_all.induct)
  case (1 L env categories n deduped)
  show ?case
  proof (cases "deduped = []")
    case True
    then show ?thesis by (simp add: categorize_all_Nil)
  next
    case False
    let ?f = "\<lambda>r. r\<lparr>Category := resolve_category L (Some DEFAULT_CATEGORY) categories\<rparr>"
    let ?batch = "take BATCH_SIZE deduped"
    have cz: "categorize_with_ai L env n (map Memo ?batch) categories
        = default_map (length (map Memo ?batch))"
      using "1.prems" by (simp add: categorize_with_ai_def)
    have b: "assign_batch L categories (categorize_with_ai L env n (map Memo ?batch) categories) 0 ?batch
        = Inr (map ?f ?batch)"
      unfolding cz by (rule assign_batch_default)
    from "1.IH" [OF False refl refl b "1.prems"]
    have rest: "categorize_all L env categories (Suc n) (drop BATCH_SIZE deduped)
        = Inr (map ?f (drop BATCH_SIZE deduped))" .
    have "categorize_all L env categories n deduped
        = Inr (map ?f ?batch @ map ?f (drop BATCH_SIZE deduped))"
      by (simp only: categorize_all_unfold [OF False] b rest sum.case)
    also have "map ?f ?batch @ map ?f (drop BATCH_SIZE deduped) = map ?f (?batch @ drop BATCH_SIZE deduped)"
      by (rule map_append [symmetric])
    finally show ?thesis by (simp only: append_take_drop_id)
  qed
qed

lemma zero_row_rows:
  "parse_rows frag sample_cols [zero_row] = Inr [zero_record\<lparr>Category := []\<rparr>]"
  "dedupe [zero_record\<lparr>Category := []\<rparr>] = [zero_record\<lparr>Category := []\<rparr>]"
  by (simp_all add: zero_row_record dedupe_def)

lemma zero_row_output:
  "normalizer_output frag offline_env False [str ''Home''] sample_cols [zero_row] = Inr [zero_record]"
proof -
  have "\<not> truthy (api_key offline_env)" by (simp add: offline_env_def truthy_def)
  then have ai: "categorize_all frag offline_env [str ''Home''] 0 [zero_record\<lparr>Category := []\<rparr>]
      = Inr [zero_record]"
    by (simp add: offline_categorize_all resolve_default_home zero_record_def)
  show ?thesis
    unfolding normalizer_output_def zero_row_rows sum.case ai by simp
qed

lemma zero_row_output_no_ai:
  "normalizer_output frag offline_env True [str ''Home''] sample_cols [zero_row] = Inr [zero_record]"
  unfolding normalizer_output_def zero_row_rows sum.case
  by (simp add: zero_record_def DEFAULT_CATEGORY_def)

text \<open>
  C3 as stated fails for the output CSV: the row with date 2025-12-10 and amount 0 parses,
  and the rows that the normalizer writes contain its record with amount 0, with and
  without \<open>--no-ai\<close>.
\<close>

theorem zero_amount_row_in_output:
  "parse_date frag (row_get zero_row (date_col sample_cols) (Some [])) = Some (str ''2025-12-10'')
   \<and> parse_amount frag (row_get zero_row (amount_col sample_cols) (Some [])) = Some 0
   \<and> normalizer_output frag offline_env False [str ''Home''] sample_cols [zero_row] = Inr [zero_record]
   \<and> normalizer_output frag offline_env True [str ''Home''] sample_cols [zero_row] = Inr [zero_record]
   \<and> Amount zero_record = 0"
proof -
  have "Amount zero_record = 0" by (simp add: zero_record_def)
  with zero_row_parses zero_row_output zero_row_output_no_ai show ?thesis by simp
qed

lemma process_row_zero:
  assumes "parse_date L (row_get row (date_col cols) (Some [])) = Some d" "d \<noteq> []"
    and "parse_amount L (row_get row (amount_col cols) (Some [])) = Some 0"
  shows "process_row L cols row = Inl AttributeError \<or>
         (\<exists>r. process_row L cols row = Inr (Some r) \<and> Amount r = 0)"
  using order_id_of_cases [of L cols row d] assms
  by (auto simp: process_row_def Let_def amount_ynab_def)

lemma normalizer_output_keeps:
  assumes out: "normalizer_output L env no_ai categories cols rows = Inr out"
    and row: "row \<in> set rows" and r: "process_row L cols row = Inr (Some r)"
  shows "\<exists>r' \<in> set out. dedup_key r' = dedup_key r"
proof -
  from normalizer_output_keys [OF out] obtain rows_out where
    p: "parse_rows L cols rows = Inr rows_out"
    and k: "map dedup_key out = map dedup_key (dedupe rows_out)"
    by blast
  from parse_rows_member [OF p row r] have "r \<in> set rows_out" .
  from dedupe_keeps_key [OF this] obtain r' where
    r': "r' \<in> set (dedupe rows_out)" "dedup_key r' = dedup_key r"
    by blast
  from r'(1) have "dedup_key r' \<in> set (map dedup_key (dedupe rows_out))" by simp
  with r'(2) k have "dedup_key r \<in> set (map dedup_key out)" by simp
  then show ?thesis by auto
qed

lemma import_batch_nonzero:
  assumes "import_batch L cim ex tol irows = Inr txs" "t \<in> set txs"
  shows "new_amount t \<noteq> 0"
proof -
  from assms obtain raw_rows where
    "t \<in> set (transactions_to_import L cim ex tol (group_rows L raw_rows))"
    by (auto simp: import_batch_def split: sum.splits)
  then obtain key g where "group_transaction L cim ex tol g = Some t"
    by (auto simp: transactions_to_import_set)
  from group_transaction_Some [OF this] show ?thesis by simp
qed

text \<open>
  C3 (as amended). A row whose date parses and whose amount parses to 0 becomes a record
  with amount 0 (unless the row loop stops on a missing order id cell), and for every
  record of a row the output of the normalizer holds a record with the same date, amount
  and memo prefix: the zero-amount record is written to the output CSV. The importer
  drops it: a row that its first pass keeps has a negative milliunit amount that comes
  from a parsed value other than 0, and every transaction handed to the ledger has an
  amount other than 0.
\<close>

theorem zero_amount_rows:
  "(parse_date L (row_get row (date_col cols) (Some [])) = Some d \<longrightarrow> d \<noteq> [] \<longrightarrow>
      parse_amount L (row_get row (amount_col cols) (Some [])) = Some 0 \<longrightarrow>
      process_row L cols row = Inl AttributeError \<or>
      (\<exists>r. process_row L cols row = Inr (Some r) \<and> Amount r = 0))
   \<and> (normalizer_output L env no_ai categories cols rows = Inr out \<longrightarrow> row \<in> set rows \<longrightarrow>
      process_row L cols row = Inr (Some r) \<longrightarrow>
      (\<exists>r' \<in> set out. dedup_key r' = dedup_key r))
   \<and> outflow_milliunits 0 = 0
   \<and> (import_row L irow = Inr (Some (date_obj, amount, irow', order_id)) \<longrightarrow>
      amount < 0 \<and>
      (\<exists>cell raw. row_get irow (str ''Amount'') (Some (str ''0'')) = Some cell
         \<and> float_of L (remove_all (str '','') (strip L cell)) = Some raw
         \<and> amount = outflow_milliunits raw \<and> raw \<noteq> 0))
   \<and> (read_rows L irows = Inr raw_rows \<longrightarrow> (date_obj, amount, irow', order_id) \<in> set raw_rows \<longrightarrow>
      amount < 0)
   \<and> (import_batch L cim ex tol irows = Inr txs \<longrightarrow> t \<in> set txs \<longrightarrow> new_amount t \<noteq> 0)"
proof -
  have raw: "amount < 0"
    if "read_rows L irows = Inr raw_rows" "(date_obj, amount, irow', order_id) \<in> set raw_rows"
  proof -
    from read_rows_member [OF that] obtain r where
      "import_row L r = Inr (Some (date_obj, amount, irow', order_id))" by blast
    from import_row_Some [OF this] show ?thesis by simp
  qed
  from process_row_zero [of L row cols d]
    normalizer_output_keeps [of L env no_ai categories cols rows out row r]
    outflow_milliunits_sign(2) import_row_Some [of L irow date_obj amount irow' order_id] raw
    import_batch_nonzero [of L cim ex tol irows txs t]
  show ?thesis by blast
qed

theorem zero_amount_rows_witness:
  "process_row frag sample_cols zero_row = Inr (Some (zero_record\<lparr>Category := []\<rparr>))
   \<and> Amount (zero_record\<lparr>Category := []\<rparr>) = 0
   \<and> normalizer_output frag offline_env False [str ''Home''] sample_cols [zero_row] = Inr [zero_record]
   \<and> dedup_key zero_record = dedup_key (zero_record\<lparr>Category := []\<rparr>)
   \<and> import_row frag zero_ready_row = Inr None
   \<and> import_batch frag sample_ids Map.empty 5 order_rows = Inr [split_tx, single_tx]
   \<and> new_amount split_tx \<noteq> 0"
proof -
  have a0: "Amount (zero_record\<lparr>Category := []\<rparr>) = 0" by (simp add: zero_record_def)
  have out: "normalizer_output frag offline_env False [str ''Home''] sample_cols [zero_row] = Inr [zero_record]"
    by (rule zero_row_output)
  have skip: "import_row frag zero_ready_row = Inr None"
    by (simp add: zero_ready_row_def run_import)
  note inst = zero_amount_rows [where L = frag and cols = sample_cols and row = zero_row
      and env = offline_env and no_ai = False and categories = "[str ''Home'']"
      and rows = "[zero_row]" and out = "[zero_record]" and r = "zero_record\<lparr>Category := []\<rparr>"
      and cim = sample_ids and ex = Map.empty and tol = 5 and irows = order_rows
      and txs = "[split_tx, single_tx]" and t = split_tx and d = "str ''2025-12-10''"]
  from inst out zero_row_record
  have key: "\<exists>r' \<in> set [zero_record]. dedup_key r' = dedup_key (zero_record\<lparr>Category := []\<rparr>)"
    by simp
  from inst order_batch have nz: "new_amount split_tx \<noteq> 0" by simp
  from zero_row_record a0 out key skip order_batch nz show ?thesis by simp
qed

end
